theory Spec2Isabelle
  imports Complex_Main
begin

section \<open>Data model\<close>

text \<open>
  The manager (\<^verbatim>\<open>TranscriptionManager\<close>) buffers the payloads of the provider's
  \<^verbatim>\<open>transcription.broadcast\<close> messages. A payload is the interface
  \<^verbatim>\<open>TranscriptionEvent\<close>. JavaScript strings are modelled as \<^typ>\<open>string\<close>, one
  \<^typ>\<open>char\<close> per code unit below 256; the two time offsets are JavaScript numbers and
  are modelled as reals (finite numbers only: no \<^verbatim>\<open>NaN\<close>, no infinities), on which
  the comparator \<^verbatim>\<open>a.start_time - b.start_time\<close> is the usual order.
  The field \<^verbatim>\<open>text\<close> is called \<open>text_str\<close> here.
\<close>

record TranscriptionEvent =
  transcript_id :: string
  chunk_id :: string
  text_str :: string
  speaker_name :: string
  start_time :: real
  end_time :: real

text \<open>
  \<^verbatim>\<open>DatabaseService\<close> reads and writes rows of the table
  \<^verbatim>\<open>transcription_requests\<close>, keyed by \<^verbatim>\<open>id\<close> (called \<open>row_id\<close> here). The three
  time stamps of a row are not modelled. The store is remote: each call may fail, and the
  failure is an input of the model (\<open>fault\<close>): the fetch of the existing row may report an
  error, and the update may report an error with a message.
\<close>

datatype status = Processing | Completed | Error

record Row =
  row_id :: string
  transcription_id :: string
  status :: status
  content :: "string option"
  error_message :: "string option"

datatype fault = NoFault | FetchError | UpdateError string

datatype level = LogError | LogWarn

datatype timer = Timeout nat | Interval nat

record SocketObj =
  is_open :: bool
  connect_calls :: nat

text \<open>
  The state of the process: the fields of the single \<^verbatim>\<open>TranscriptionManager\<close>
  instance, the socket objects created so far (\<open>socket\<close> refers to one of them by its index),
  the rows of the store, and what the logger received at the levels \<^verbatim>\<open>error\<close> and
  \<^verbatim>\<open>warn\<close> (\<^verbatim>\<open>info\<close> and \<^verbatim>\<open>debug\<close> lines are not modelled). A timer field holds the
  pending timer, or nothing for \<^verbatim>\<open>null\<close>. Times are milliseconds.
\<close>

record world =
  socket :: "nat option"
  requestId :: "string option"
  transcriptionId :: "string option"
  buffer :: "TranscriptionEvent list"
  lastFlushTime :: int
  inactivityTimer :: "timer option"
  flushTimer :: "timer option"
  isProcessingFlag :: bool
  sockets :: "SocketObj list"
  db :: "string \<rightharpoonup> Row"
  logs :: "(level \<times> string) list"

definition FLUSH_INTERVAL :: int where
  "FLUSH_INTERVAL = 15000"

definition INACTIVITY_TIMEOUT_DURATION :: nat where
  "INACTIVITY_TIMEOUT_DURATION = 10 * 60 * 1000"

definition initial_world :: world where
  "initial_world = \<lparr>socket = None, requestId = None, transcriptionId = None, buffer = [],
     lastFlushTime = 0, inactivityTimer = None, flushTimer = None, isProcessingFlag = False,
     sockets = [], db = Map.empty, logs = []\<rparr>"

text \<open>
  \<^verbatim>\<open>String.prototype.trim\<close> removes white space and line terminators from both ends.
  Below code unit 256 these are TAB, LF, VT, FF, CR, SPACE and NBSP.
\<close>

definition is_whitespace :: "char \<Rightarrow> bool" where
  "is_whitespace c = ((of_char c :: nat) \<in> {9, 10, 11, 12, 13, 32, 160})"

definition trim :: "string \<Rightarrow> string" where
  "trim s = rev (dropWhile is_whitespace (rev (dropWhile is_whitespace s)))"

text \<open>\<^verbatim>\<open>Array.prototype.join\<close> with a separator.\<close>

fun join :: "string \<Rightarrow> string list \<Rightarrow> string" where
  "join sep [] = []"
| "join sep [x] = x"
| "join sep (x # y # ys) = x @ sep @ join sep (y # ys)"

definition newline :: string where
  "newline = [CHR 0x0A]"

text \<open>
  A JavaScript \<^verbatim>\<open>Map\<close> keeps its keys in the order of their first insertion:
  \<^verbatim>\<open>set\<close> on a key already present replaces the value where the key stands,
  \<^verbatim>\<open>set\<close> on a new key adds the entry at the end, and \<^verbatim>\<open>values()\<close> lists the
  values in that order. So the map is an association list.
\<close>

fun Map_set :: "'k \<Rightarrow> 'v \<Rightarrow> ('k \<times> 'v) list \<Rightarrow> ('k \<times> 'v) list" where
  "Map_set k v [] = [(k, v)]"
| "Map_set k v (p # m) = (if fst p = k then (k, v) # m else p # Map_set k v m)"

definition Map_values :: "('k \<times> 'v) list \<Rightarrow> 'v list" where
  "Map_values m = map snd m"

section \<open>The compactor\<close>

text \<open>
  \<^verbatim>\<open>processBufferToTranscript\<close>, step by step:
  \<^verbatim>\<open>for (const event of this.buffer) chunks.set(event.chunk_id, event)\<close>, then
  \<^verbatim>\<open>Array.from(chunks.values()).sort(...).map(...).filter(...).join('\n')\<close>.
  The sort of a fresh array is stable (ECMAScript 2019), as \<^const>\<open>sort_key\<close> is.
\<close>

definition chunks_of :: "TranscriptionEvent list \<Rightarrow> (string \<times> TranscriptionEvent) list" where
  "chunks_of buf = foldl (\<lambda>chunks event. Map_set (chunk_id event) event chunks) [] buf"

definition sorted_events :: "TranscriptionEvent list \<Rightarrow> TranscriptionEvent list" where
  "sorted_events buf = sort_key start_time (Map_values (chunks_of buf))"

definition format_event :: "TranscriptionEvent \<Rightarrow> string" where
  "format_event event =
     (let speaker = (if speaker_name event \<noteq> [] then speaker_name event else ''Unknown Speaker'');
          text = text_str event
      in if trim text = [] \<and> speaker = ''Unknown Speaker'' then []
         else speaker @ '': '' @ text)"

definition transcript_lines :: "TranscriptionEvent list \<Rightarrow> string list" where
  "transcript_lines buf =
     filter (\<lambda>line. length line > 0) (map format_event (sorted_events buf))"

text \<open>
  The method reads \<^verbatim>\<open>this.buffer\<close> and returns the transcript. It is given the
  type of a method that may write to the manager, so that what it leaves of the state is a
  statement about it: the map, the array of its values and the sorted array are fresh
  objects, and no field is assigned.
\<close>

definition processBufferToTranscript :: "world \<Rightarrow> string \<times> world" where
  "processBufferToTranscript w = (join newline (transcript_lines (buffer w)), w)"

section \<open>The persistence gateway\<close>

definition logger :: "level \<Rightarrow> string \<Rightarrow> world \<Rightarrow> world" where
  "logger lvl msg w = w\<lparr>logs := logs w @ [(lvl, msg)]\<rparr>"

text \<open>A string or \<^verbatim>\<open>null\<close> in a condition: \<^verbatim>\<open>null\<close> and the empty string are falsy.\<close>

definition truthy :: "string option \<Rightarrow> bool" where
  "truthy s = (case s of None \<Rightarrow> False | Some v \<Rightarrow> v \<noteq> [])"

text \<open>
  \<^verbatim>\<open>createTranscriptionRequest\<close>: an insert; \<^verbatim>\<open>id\<close> is the primary key, so a second
  insert of the same id is an error of the store. Any error is thrown. A thrown
  \<^verbatim>\<open>Error\<close> is \<open>Inl\<close> of its message, a normal return is \<open>Inr\<close>.
\<close>

definition createTranscriptionRequest ::
  "string option \<Rightarrow> string \<Rightarrow> string \<Rightarrow> world \<Rightarrow> (string + unit) \<times> world" where
  "createTranscriptionRequest insert_error rid tid w =
     (case (if db w rid \<noteq> None then Some ''duplicate key value violates unique constraint''
            else insert_error) of
        Some m \<Rightarrow>
          (Inl (''Failed to create transcription request: '' @ m),
           logger LogError ''Failed to create transcription request'' w)
      | None \<Rightarrow>
          (Inr (), w\<lparr>db := (db w)(rid \<mapsto> \<lparr>row_id = rid, transcription_id = tid,
             status = Processing, content = None, error_message = None\<rparr>)\<rparr>))"

text \<open>
  \<^verbatim>\<open>updateTranscriptionRequest(requestId, segmentContent, status?, errorMessage?)\<close>:
  fetch the row (an error or no row: log and return \<^verbatim>\<open>null\<close>, nothing thrown), build
  the new content, then update (an error: log and throw).
\<close>

definition updateTranscriptionRequest ::
  "fault \<Rightarrow> string \<Rightarrow> string \<Rightarrow> status option \<Rightarrow> string option \<Rightarrow> world
     \<Rightarrow> (string + Row option) \<times> world" where
  "updateTranscriptionRequest flt rid segmentContent st errorMessage w =
     (case (if flt = FetchError then None else db w rid) of
        None \<Rightarrow>
          (Inr None,
           logger LogError ''Error fetching transcription request for update or request not found'' w)
      | Some existingRequest \<Rightarrow>
          (let newContent =
                 (case content existingRequest of
                    None \<Rightarrow> segmentContent
                  | Some c \<Rightarrow> if c \<noteq> [] then c @ newline @ segmentContent else segmentContent);
               data = existingRequest\<lparr>
                 content := Some newContent,
                 status := (case st of Some s \<Rightarrow> s | None \<Rightarrow> status existingRequest),
                 error_message :=
                   (case errorMessage of Some m \<Rightarrow> Some m
                    | None \<Rightarrow> error_message existingRequest)\<rparr>
           in case flt of
                UpdateError m \<Rightarrow>
                  (Inl (''Failed to update transcription request: '' @ m),
                   logger LogError ''Failed to update transcription request'' w)
              | _ \<Rightarrow> (Inr (Some data), w\<lparr>db := (db w)(rid \<mapsto> data)\<rparr>)))"

section \<open>The session manager\<close>

text \<open>
  \<^verbatim>\<open>io(...)\<close> creates a socket object that starts connecting; \<^verbatim>\<open>disconnect()\<close> and
  \<^verbatim>\<open>connect()\<close> act on the object a reference points to. A reference the manager
  holds always points into \<open>sockets\<close>, since \<open>io\<close> is the only source of references;
  on any other index the two operations change nothing.
\<close>

definition io :: "world \<Rightarrow> nat \<times> world" where
  "io w = (length (sockets w),
           w\<lparr>sockets := sockets w @ [\<lparr>is_open = True, connect_calls = 0\<rparr>]\<rparr>)"

definition socket_disconnect :: "nat \<Rightarrow> world \<Rightarrow> world" where
  "socket_disconnect i w =
     (if i < length (sockets w)
      then w\<lparr>sockets := (sockets w)[i := (sockets w ! i)\<lparr>is_open := False\<rparr>]\<rparr>
      else w)"

definition socket_connect :: "nat \<Rightarrow> world \<Rightarrow> world" where
  "socket_connect i w =
     (if i < length (sockets w)
      then w\<lparr>sockets := (sockets w)[i := (sockets w ! i)\<lparr>is_open := True,
              connect_calls := Suc (connect_calls (sockets w ! i))\<rparr>]\<rparr>
      else w)"

text \<open>
  \<^verbatim>\<open>resetInactivityTimer\<close> clears a pending watchdog and arms a new one;
  \<^verbatim>\<open>startFlushTimer\<close> clears a pending flush timer and arms the interval.
\<close>

definition resetInactivityTimer :: "world \<Rightarrow> world" where
  "resetInactivityTimer w = w\<lparr>inactivityTimer := Some (Timeout INACTIVITY_TIMEOUT_DURATION)\<rparr>"

definition startFlushTimer :: "world \<Rightarrow> world" where
  "startFlushTimer w = w\<lparr>flushTimer := Some (Interval (nat FLUSH_INTERVAL))\<rparr>"

text \<open>
  \<^verbatim>\<open>handleError(message)\<close>. The only call that can throw is the write of the status,
  and it stands in a \<^verbatim>\<open>try\<close> whose \<^verbatim>\<open>catch\<close> logs.
\<close>

definition handleError :: "fault \<Rightarrow> string \<Rightarrow> world \<Rightarrow> (string + unit) \<times> world" where
  "handleError flt message w =
     (let w1 = w\<lparr>isProcessingFlag := False\<rparr>;
          w2 = (if flushTimer w1 \<noteq> None then w1\<lparr>flushTimer := None\<rparr> else w1);
          w3 = (if inactivityTimer w2 \<noteq> None then w2\<lparr>inactivityTimer := None\<rparr> else w2);
          w4 = (case socket w3 of
                  Some s \<Rightarrow> (socket_disconnect s w3)\<lparr>socket := None\<rparr>
                | None \<Rightarrow> w3);
          w5 = (case requestId w4 of
                  None \<Rightarrow> w4
                | Some rid \<Rightarrow>
                    if rid \<noteq> [] then
                      (case updateTranscriptionRequest flt rid [] (Some Error) (Some message) w4 of
                         (Inr _, w') \<Rightarrow> w'
                       | (Inl _, w') \<Rightarrow>
                           logger LogError
                             ''Failed to update transcription request with error status'' w')
                    else w4)
      in (Inr (), logger LogError ''Transcription error'' w5))"

text \<open>\<^verbatim>\<open>flushBuffer\<close>: the buffer is cleared after the write returned, and only then.\<close>

definition flushBuffer :: "fault \<Rightarrow> world \<Rightarrow> (string + unit) \<times> world" where
  "flushBuffer flt w =
     (if length (buffer w) = 0 \<or> \<not> truthy (requestId w) then (Inr (), w)
      else
        (let (transcript, w0) = processBufferToTranscript w
         in case updateTranscriptionRequest flt (case requestId w0 of Some rid \<Rightarrow> rid | None \<Rightarrow> [])
                   transcript None None w0 of
              (Inr _, w') \<Rightarrow> (Inr (), w'\<lparr>buffer := []\<rparr>)
            | (Inl m, w') \<Rightarrow> (Inl m, logger LogError ''Failed to flush buffer to database'' w')))"

text \<open>
  \<^verbatim>\<open>stopTranscription\<close>. Its two writes (the flush and the status) take a fault each.
  An exception of either leaves the function at once.
\<close>

definition stopTranscription :: "fault \<Rightarrow> fault \<Rightarrow> world \<Rightarrow> (string + unit) \<times> world" where
  "stopTranscription flt_flush flt_status w =
     (let w1 = w\<lparr>isProcessingFlag := False\<rparr>;
          w2 = (if flushTimer w1 \<noteq> None then w1\<lparr>flushTimer := None\<rparr> else w1)
      in case (if length (buffer w2) > 0 then flushBuffer flt_flush w2 else (Inr (), w2)) of
           (Inl m, w3) \<Rightarrow> (Inl m, w3)
         | (Inr _, w3) \<Rightarrow>
             (let w4 = (case socket w3 of
                          Some s \<Rightarrow> (socket_disconnect s w3)\<lparr>socket := None\<rparr>
                        | None \<Rightarrow> w3)
              in case requestId w4 of
                   None \<Rightarrow> (Inr (), w4)
                 | Some rid \<Rightarrow>
                     if rid \<noteq> [] then
                       (case updateTranscriptionRequest flt_status rid [] (Some Completed) None w4 of
                          (Inr _, w5) \<Rightarrow> (Inr (), w5)
                        | (Inl m, w5) \<Rightarrow> (Inl m, w5))
                     else (Inr (), w4)))"

text \<open>
  \<^verbatim>\<open>startTranscription\<close>. \<open>io_error\<close> is the exception of \<^verbatim>\<open>io(...)\<close>, if it throws;
  \<open>now\<close> is \<^verbatim>\<open>Date.now()\<close>. Registering the handlers changes no field: the handlers
  are the functions \<open>on_...\<close> below.
\<close>

definition startTranscription ::
  "string option \<Rightarrow> fault \<Rightarrow> int \<Rightarrow> string \<Rightarrow> string \<Rightarrow> world \<Rightarrow> (string + unit) \<times> world" where
  "startTranscription io_error flt now rid tid w =
     (let w1 = w\<lparr>requestId := Some rid, transcriptionId := Some tid, buffer := [],
                 lastFlushTime := now, isProcessingFlag := True\<rparr>
      in case io_error of
           None \<Rightarrow>
             (let (s, w2) = io w1;
                  w3 = w2\<lparr>socket := Some s\<rparr>
              in (Inr (), resetInactivityTimer (startFlushTimer w3)))
         | Some m \<Rightarrow>
             (Inl m, snd (handleError flt ''Failed to start transcription session''
                       (logger LogError ''Failed to start transcription session'' w1))))"

text \<open>
  \<^verbatim>\<open>handleInactivityTimeout\<close>: the callback of the watchdog. Its flush, and the
  flush and the status write of \<^verbatim>\<open>stopTranscription\<close>, take a fault each.
\<close>

definition handleInactivityTimeout ::
  "fault \<Rightarrow> fault \<Rightarrow> fault \<Rightarrow> world \<Rightarrow> (string + unit) \<times> world" where
  "handleInactivityTimeout flt flt_flush flt_status w =
     (let w1 = logger LogWarn
                 ''No Fireflies messages received for 10 minutes. Automatically stopping transcription.'' w;
          w2 = (if inactivityTimer w1 \<noteq> None then w1\<lparr>inactivityTimer := None\<rparr> else w1)
      in case (if length (buffer w2) > 0 then flushBuffer flt w2 else (Inr (), w2)) of
           (Inl m, w3) \<Rightarrow> (Inl m, w3)
         | (Inr _, w3) \<Rightarrow> stopTranscription flt_flush flt_status w3)"

section \<open>Event handlers and timer callbacks\<close>

text \<open>
  The handlers that \<^verbatim>\<open>setupEventHandlers\<close> registers on the socket. A handler that
  calls \<^verbatim>\<open>handleError\<close> does not wait for it; \<^verbatim>\<open>handleError\<close> never rejects, and
  the model runs it to its end. The fault of its status write is the last argument.
  Every handler, callback and route runs to its end before the next event is taken: what
  other events do to the manager while one of them waits for the store is not modelled.
\<close>

definition on_disconnect :: "string \<Rightarrow> fault \<Rightarrow> world \<Rightarrow> world" where
  "on_disconnect reason flt_err w =
     (if isProcessingFlag w then
        (let w1 = logger LogWarn ''Unexpected WebSocket disconnection'' w
         in if reason = ''io server disconnect'' \<or> reason = ''io client disconnect'' then
              (case socket w1 of Some s \<Rightarrow> socket_connect s w1 | None \<Rightarrow> w1)
            else snd (handleError flt_err ''WebSocket disconnected unexpectedly'' w1))
      else w)"

definition on_connect_error :: "string \<Rightarrow> fault \<Rightarrow> world \<Rightarrow> world" where
  "on_connect_error msg flt_err w =
     snd (handleError flt_err (''WebSocket connection error: '' @ msg)
            (logger LogError ''WebSocket connection error'' w))"

definition on_auth_failed :: "string \<Rightarrow> fault \<Rightarrow> world \<Rightarrow> world" where
  "on_auth_failed err flt_err w =
     snd (handleError flt_err (''Authentication failed: '' @ err)
            (logger LogError ''Authentication failed'' w))"

text \<open>
  The handler of \<^verbatim>\<open>transcription.broadcast\<close>. \<open>payload\<close> is \<open>None\<close> for a message
  whose payload is missing or not an object; \<open>now\<close> is \<^verbatim>\<open>Date.now()\<close>; \<open>flt\<close> is the
  fault of the flush.
\<close>

definition on_transcription_broadcast ::
  "TranscriptionEvent option \<Rightarrow> int \<Rightarrow> fault \<Rightarrow> fault \<Rightarrow> world \<Rightarrow> world" where
  "on_transcription_broadcast payload now flt flt_err w =
     (let w1 = resetInactivityTimer w
      in case payload of
           None \<Rightarrow>
             logger LogWarn ''Received transcription.broadcast with missing or invalid payload'' w1
         | Some p \<Rightarrow>
             (let w2 = w1\<lparr>buffer := buffer w1 @ [p]\<rparr>
              in if now - lastFlushTime w2 \<ge> FLUSH_INTERVAL then
                   (case flushBuffer flt w2 of
                      (Inr _, w3) \<Rightarrow> w3\<lparr>lastFlushTime := now\<rparr>
                    | (Inl _, w3) \<Rightarrow>
                        snd (handleError flt_err ''Error processing transcription event''
                               (logger LogError ''Error processing transcription event'' w3)))
                 else w2))"

text \<open>
  The callback of the flush interval; \<open>now\<close> is \<^verbatim>\<open>Date.now()\<close> after the flush. It has
  no \<^verbatim>\<open>catch\<close>: an exception of the flush rejects its promise, which reaches the
  handler of \<^verbatim>\<open>unhandledRejection\<close> of the process; that handler logs and the process
  goes on.
\<close>

definition flushTimerCallback :: "fault \<Rightarrow> int \<Rightarrow> world \<Rightarrow> (string + unit) \<times> world" where
  "flushTimerCallback flt now w =
     (case (if length (buffer w) > 0 then flushBuffer flt w else (Inr (), w)) of
        (Inl m, w1) \<Rightarrow> (Inl m, w1)
      | (Inr _, w1) \<Rightarrow> (Inr (), w1\<lparr>lastFlushTime := now\<rparr>))"

definition unhandledRejection :: "(string + unit) \<times> world \<Rightarrow> world" where
  "unhandledRejection r =
     (case r of
        (Inl _, w) \<Rightarrow> logger LogError ''Unhandled Rejection at:'' w
      | (Inr _, w) \<Rightarrow> w)"

text \<open>What the event loop does when a timer fires: nothing for a timer that is not pending.\<close>

definition flush_timer_fires :: "fault \<Rightarrow> int \<Rightarrow> world \<Rightarrow> world" where
  "flush_timer_fires flt now w =
     (if flushTimer w \<noteq> None then unhandledRejection (flushTimerCallback flt now w) else w)"

definition inactivity_timer_fires :: "fault \<Rightarrow> fault \<Rightarrow> fault \<Rightarrow> world \<Rightarrow> world" where
  "inactivity_timer_fires flt flt_flush flt_status w =
     (if inactivityTimer w \<noteq> None
      then unhandledRejection (handleInactivityTimeout flt flt_flush flt_status w)
      else w)"

section \<open>The routes\<close>

text \<open>
  \<^verbatim>\<open>POST /start\<close> and \<^verbatim>\<open>POST /stop\<close>; the result is the HTTP status of the response.
  The two body fields are strings or absent; \<open>generated\<close> is what \<^verbatim>\<open>generateId()\<close>
  returns. \<^verbatim>\<open>startTranscription\<close> is called without \<^verbatim>\<open>await\<close>, so its exception
  is an unhandled rejection and the response is 202 all the same. An exception that reaches
  \<^verbatim>\<open>next(error)\<close> is logged by the error middleware, which answers 500.
\<close>

definition post_start ::
  "string option \<Rightarrow> string option \<Rightarrow> string \<Rightarrow> string option \<Rightarrow> string option \<Rightarrow> fault \<Rightarrow> int
     \<Rightarrow> world \<Rightarrow> nat \<times> world" where
  "post_start transcriptionId_field clientRequestId generated insert_error io_error flt_err now w =
     (case transcriptionId_field of
        None \<Rightarrow> (400, logger LogWarn ''Missing transcriptionId in /start request'' w)
      | Some tid \<Rightarrow>
          if tid = [] then (400, logger LogWarn ''Missing transcriptionId in /start request'' w)
          else
            (let effectiveRequestId =
                   (case clientRequestId of
                      None \<Rightarrow> generated
                    | Some c \<Rightarrow> if c \<noteq> [] then c else generated)
             in case createTranscriptionRequest insert_error effectiveRequestId tid w of
                  (Inl _, w1) \<Rightarrow>
                    (500, logger LogError ''Unhandled error''
                            (logger LogError ''Error in /start route:'' w1))
                | (Inr _, w1) \<Rightarrow>
                    (202, unhandledRejection
                            (startTranscription io_error flt_err now effectiveRequestId tid w1))))"

definition post_stop :: "string option \<Rightarrow> fault \<Rightarrow> fault \<Rightarrow> world \<Rightarrow> nat \<times> world" where
  "post_stop requestId_field flt_flush flt_status w =
     (if \<not> truthy requestId_field
      then (400, logger LogWarn ''Missing requestId in /stop request'' w)
      else if \<not> isProcessingFlag w
      then (400, logger LogWarn ''Attempted to stop session, but no session is currently processing.'' w)
      else if requestId w \<noteq> requestId_field
      then (400, logger LogWarn ''Attempted to stop session, but active session is another.'' w)
      else
        (case stopTranscription flt_flush flt_status w of
           (Inl _, w1) \<Rightarrow>
             (500, logger LogError ''Unhandled error''
                     (logger LogError ''Error in /stop route while stopping transcription:'' w1))
         | (Inr _, w1) \<Rightarrow> (200, w1)))"

section \<open>Notions of the specification and sample sessions\<close>

text \<open>
  The specification speaks of the fragment received last for a chunk id, of placeholder
  fragments (blank text and no identified speaker), of the line \<open>speaker: text\<close> of a
  fragment, and of content that grows by blocks separated by a newline. These are written
  after the specification, to be compared with the code.
\<close>

definition last_received :: "TranscriptionEvent list \<Rightarrow> string \<Rightarrow> TranscriptionEvent option" where
  "last_received buf k = find (\<lambda>e. chunk_id e = k) (rev buf)"

definition is_placeholder :: "TranscriptionEvent \<Rightarrow> bool" where
  "is_placeholder e \<longleftrightarrow>
     trim (text_str e) = [] \<and> (speaker_name e = [] \<or> speaker_name e = ''Unknown Speaker'')"

definition speaker_line :: "TranscriptionEvent \<Rightarrow> string" where
  "speaker_line e =
     (if speaker_name e = [] then ''Unknown Speaker'' else speaker_name e) @ '': '' @ text_str e"

definition appended :: "string option \<Rightarrow> string \<Rightarrow> string" where
  "appended previous block =
     (case previous of
        None \<Rightarrow> block
      | Some c \<Rightarrow> if c = [] then block else c @ newline @ block)"

text \<open>The fields of the manager, without the store, the socket objects and the log.\<close>

definition session_fields ::
  "world \<Rightarrow> nat option \<times> string option \<times> string option \<times> TranscriptionEvent list \<times> int
     \<times> timer option \<times> timer option \<times> bool" where
  "session_fields w =
     (socket w, requestId w, transcriptionId w, buffer w, lastFlushTime w,
      inactivityTimer w, flushTimer w, isProcessingFlag w)"

text \<open>
  What \<^verbatim>\<open>handleError\<close> has done when it reaches its write: the flag is off, both timers
  are cleared, the socket is disconnected and the field is \<^verbatim>\<open>null\<close>.
\<close>

definition closed_session :: "world \<Rightarrow> world" where
  "closed_session w =
     (let w3 = w\<lparr>isProcessingFlag := False, flushTimer := None, inactivityTimer := None\<rparr>
      in case socket w3 of
           Some s \<Rightarrow> (socket_disconnect s w3)\<lparr>socket := None\<rparr>
         | None \<Rightarrow> w3)"

text \<open>
  A sample session: \<^verbatim>\<open>POST /start\<close> for the feed \<open>t1\<close> with the request id \<open>r1\<close> at
  time 0, then a fragment of Alice at time 100, then the first tick of the flush timer.
\<close>

definition alice_hello :: TranscriptionEvent where
  "alice_hello = \<lparr>transcript_id = ''t1'', chunk_id = ''c1'', text_str = ''hello'',
     speaker_name = ''Alice'', start_time = 0, end_time = 1\<rparr>"

definition session_started :: world where
  "session_started =
     snd (post_start (Some ''t1'') (Some ''r1'') ''g1'' None None NoFault 0 initial_world)"

definition session_buffering :: world where
  "session_buffering =
     on_transcription_broadcast (Some alice_hello) 100 NoFault NoFault session_started"

definition session_flushed :: world where
  "session_flushed = flush_timer_fires NoFault 15000 session_buffering"

text \<open>
  Further fragments: a placeholder (no text, no speaker), the provider's correction of
  Alice's chunk, and two fragments that arrive against the order of their start times.
\<close>

definition silence :: TranscriptionEvent where
  "silence = \<lparr>transcript_id = ''t1'', chunk_id = ''c2'', text_str = [],
     speaker_name = [], start_time = 2, end_time = 3\<rparr>"

definition alice_hello_world :: TranscriptionEvent where
  "alice_hello_world = \<lparr>transcript_id = ''t1'', chunk_id = ''c1'', text_str = ''hello world'',
     speaker_name = ''Alice'', start_time = 0, end_time = 2\<rparr>"

definition frag_b :: TranscriptionEvent where
  "frag_b = \<lparr>transcript_id = ''t1'', chunk_id = ''c5'', text_str = ''b'',
     speaker_name = ''Bob'', start_time = 5, end_time = 6\<rparr>"

definition frag_a :: TranscriptionEvent where
  "frag_a = \<lparr>transcript_id = ''t1'', chunk_id = ''c1'', text_str = ''a'',
     speaker_name = ''Ann'', start_time = 1, end_time = 2\<rparr>"

definition session_silent :: world where
  "session_silent = on_transcription_broadcast (Some silence) 100 NoFault NoFault session_started"

definition session_corrected :: world where
  "session_corrected =
     on_transcription_broadcast (Some alice_hello_world) 300 NoFault NoFault
       (on_transcription_broadcast (Some silence) 200 NoFault NoFault session_buffering)"

definition session_b_then_a :: world where
  "session_b_then_a =
     on_transcription_broadcast (Some frag_a) 200 NoFault NoFault
       (on_transcription_broadcast (Some frag_b) 100 NoFault NoFault session_started)"

definition session_a_then_b :: world where
  "session_a_then_b =
     on_transcription_broadcast (Some frag_b) 200 NoFault NoFault
       (on_transcription_broadcast (Some frag_a) 100 NoFault NoFault session_started)"

definition session_stopped_idle :: world where
  "session_stopped_idle = snd (post_stop (Some ''r1'') NoFault NoFault session_started)"

section \<open>Unfolding rules\<close>

lemmas gateway_defs = updateTranscriptionRequest_def createTranscriptionRequest_def logger_def
  truthy_def appended_def
lemmas manager_defs = handleError_def flushBuffer_def stopTranscription_def startTranscription_def
  handleInactivityTimeout_def io_def socket_disconnect_def socket_connect_def
  resetInactivityTimer_def startFlushTimer_def processBufferToTranscript_def
lemmas handler_defs = on_disconnect_def on_connect_error_def on_auth_failed_def
  on_transcription_broadcast_def flushTimerCallback_def unhandledRejection_def
  flush_timer_fires_def inactivity_timer_fires_def post_start_def post_stop_def
lemmas constant_defs = FLUSH_INTERVAL_def INACTIVITY_TIMEOUT_DURATION_def initial_world_def
lemmas compactor_defs = transcript_lines_def sorted_events_def chunks_of_def Map_values_def
  format_event_def trim_def is_whitespace_def newline_def
lemmas all_defs = gateway_defs manager_defs handler_defs constant_defs compactor_defs Let_def

section \<open>The sample sessions, evaluated\<close>

lemma session_started_eval:
  "session_started = \<lparr>socket = Some 0, requestId = Some ''r1'', transcriptionId = Some ''t1'',
     buffer = [], lastFlushTime = 0, inactivityTimer = Some (Timeout 600000),
     flushTimer = Some (Interval 15000), isProcessingFlag = True,
     sockets = [\<lparr>is_open = True, connect_calls = 0\<rparr>],
     db = [''r1'' \<mapsto> \<lparr>row_id = ''r1'', transcription_id = ''t1'', status = Processing,
            content = None, error_message = None\<rparr>],
     logs = []\<rparr>"
  by (simp add: session_started_def all_defs)

lemma session_buffering_eval:
  "session_buffering = session_started\<lparr>buffer := [alice_hello]\<rparr>"
  by (simp add: session_buffering_def session_started_eval all_defs)

lemma transcript_alice_hello:
  "join newline (transcript_lines [alice_hello]) = ''Alice: hello''"
  by (simp add: alice_hello_def compactor_defs Let_def)

lemma session_flushed_eval:
  "session_flushed = session_started\<lparr>lastFlushTime := 15000,
     db := [''r1'' \<mapsto> \<lparr>row_id = ''r1'', transcription_id = ''t1'', status = Processing,
            content = Some ''Alice: hello'', error_message = None\<rparr>]\<rparr>"
  by (simp add: session_flushed_def session_buffering_eval session_started_eval
        gateway_defs manager_defs handler_defs constant_defs Let_def transcript_alice_hello)

lemma session_silent_eval: "session_silent = session_started\<lparr>buffer := [silence]\<rparr>"
  by (simp add: session_silent_def session_started_eval all_defs)

lemma session_corrected_eval:
  "session_corrected = session_started\<lparr>buffer := [alice_hello, silence, alice_hello_world]\<rparr>"
  by (simp add: session_corrected_def session_buffering_eval session_started_eval all_defs)

lemma session_b_then_a_eval: "session_b_then_a = session_started\<lparr>buffer := [frag_b, frag_a]\<rparr>"
  by (simp add: session_b_then_a_def session_started_eval all_defs)

lemma session_a_then_b_eval: "session_a_then_b = session_started\<lparr>buffer := [frag_a, frag_b]\<rparr>"
  by (simp add: session_a_then_b_def session_started_eval all_defs)

lemma session_stopped_idle_eval:
  "session_stopped_idle = session_started\<lparr>socket := None, flushTimer := None,
     isProcessingFlag := False, sockets := [\<lparr>is_open = False, connect_calls = 0\<rparr>],
     db := [''r1'' \<mapsto> \<lparr>row_id = ''r1'', transcription_id = ''t1'', status = Completed,
            content = Some [], error_message = None\<rparr>]\<rparr>"
  by (simp add: session_stopped_idle_def session_started_eval all_defs)

section \<open>The map of chunks and the sorted fragments\<close>

lemma chunks_of_Nil: "chunks_of [] = []"
  by (simp add: chunks_of_def)

lemma chunks_of_snoc: "chunks_of (buf @ [e]) = Map_set (chunk_id e) e (chunks_of buf)"
  by (simp add: chunks_of_def)

lemma map_of_Map_set: "map_of (Map_set k v m) = (map_of m)(k \<mapsto> v)"
  by (induction m) (auto simp: fun_eq_iff)

lemma keys_Map_set: "fst ` set (Map_set k v m) = insert k (fst ` set m)"
  by (induction m) auto

lemma distinct_Map_set: "distinct (map fst m) \<Longrightarrow> distinct (map fst (Map_set k v m))"
  by (induction m) (auto simp: keys_Map_set)

lemma set_Map_set: "set (Map_set k v m) \<subseteq> insert (k, v) (set m)"
  by (induction m) auto

lemma last_received_Nil: "last_received [] k = None"
  by (simp add: last_received_def)

lemma last_received_snoc:
  "last_received (buf @ [e]) k = (if chunk_id e = k then Some e else last_received buf k)"
  by (simp add: last_received_def)

lemma map_of_chunks_of: "map_of (chunks_of buf) = last_received buf"
proof (induction buf rule: rev_induct)
  case Nil
  show ?case by (simp add: chunks_of_Nil last_received_Nil fun_eq_iff)
next
  case (snoc e buf)
  then show ?case
    by (auto simp: chunks_of_snoc map_of_Map_set last_received_snoc fun_eq_iff)
qed

lemma distinct_chunks_of: "distinct (map fst (chunks_of buf))"
  by (induction buf rule: rev_induct) (simp_all add: chunks_of_Nil chunks_of_snoc distinct_Map_set)

lemma keys_chunks_of: "fst ` set (chunks_of buf) = chunk_id ` set buf"
  by (induction buf rule: rev_induct) (auto simp: chunks_of_Nil chunks_of_snoc keys_Map_set)

lemma chunks_of_key: "(k, e) \<in> set (chunks_of buf) \<Longrightarrow> chunk_id e = k"
proof (induction buf arbitrary: k e rule: rev_induct)
  case Nil
  then show ?case by (simp add: chunks_of_Nil)
next
  case (snoc x buf)
  from snoc.prems have "(k, e) = (chunk_id x, x) \<or> (k, e) \<in> set (chunks_of buf)"
    using set_Map_set [of "chunk_id x" x "chunks_of buf"] by (auto simp: chunks_of_snoc)
  then show ?case using snoc.IH by auto
qed

lemma chunk_ids_of_values: "map chunk_id (Map_values (chunks_of buf)) = map fst (chunks_of buf)"
  using chunks_of_key [of _ _ buf] by (auto simp: Map_values_def)

lemma distinct_values: "distinct (map chunk_id (Map_values (chunks_of buf)))"
  by (simp add: chunk_ids_of_values distinct_chunks_of)

lemma set_values: "set (Map_values (chunks_of buf)) = {e. \<exists>k. last_received buf k = Some e}"
proof -
  have "set (Map_values (chunks_of buf)) = ran (map_of (chunks_of buf))"
    by (simp add: Map_values_def ran_distinct distinct_chunks_of)
  then show ?thesis by (simp add: map_of_chunks_of ran_def)
qed

lemma distinct_sorted_events: "distinct (map chunk_id (sorted_events buf))"
  using distinct_values [of buf] by (simp add: sorted_events_def distinct_map)

lemma set_sorted_events: "set (sorted_events buf) = {e. \<exists>k. last_received buf k = Some e}"
  by (simp add: sorted_events_def set_values)

lemma sorted_sorted_events: "sorted (map start_time (sorted_events buf))"
  by (simp add: sorted_events_def)

lemma last_received_chunk: "last_received buf k = Some e \<Longrightarrow> chunk_id e = k \<and> e \<in> set buf"
  by (induction buf rule: rev_induct)
     (auto simp: last_received_Nil last_received_snoc split: if_splits)

lemma last_received_sorted_events:
  "e \<in> set (sorted_events buf) \<Longrightarrow> last_received buf (chunk_id e) = Some e"
  using last_received_chunk by (fastforce simp: set_sorted_events)

lemma last_received_dom: "k \<in> chunk_id ` set buf \<longleftrightarrow> (\<exists>e. last_received buf k = Some e)"
  using keys_chunks_of [of buf] map_of_chunks_of [of buf]
  by (metis domIff dom_map_of_conv_image_fst not_Some_eq)

lemma format_event_empty: "format_event e = [] \<longleftrightarrow> is_placeholder e"
  by (auto simp: format_event_def is_placeholder_def Let_def)

lemma format_event_line: "\<not> is_placeholder e \<Longrightarrow> format_event e = speaker_line e"
  by (auto simp: format_event_def is_placeholder_def speaker_line_def Let_def)

lemma transcript_lines_eq:
  "transcript_lines buf = map speaker_line (filter (\<lambda>e. \<not> is_placeholder e) (sorted_events buf))"
proof -
  have "filter (\<lambda>line. length line > 0) (map format_event xs)
        = map speaker_line (filter (\<lambda>e. \<not> is_placeholder e) xs)" for xs
    by (induction xs) (auto simp: format_event_empty format_event_line)
  then show ?thesis by (simp add: transcript_lines_def)
qed

section \<open>The persistence gateway: what a write stores\<close>

lemma update_NoFault:
  assumes "db w rid = Some row"
  shows "\<exists>row'. updateTranscriptionRequest NoFault rid seg st em w
            = (Inr (Some row'), w\<lparr>db := (db w)(rid \<mapsto> row')\<rparr>)
          \<and> content row' = Some (appended (content row) seg)
          \<and> status row' = (case st of Some s \<Rightarrow> s | None \<Rightarrow> status row)
          \<and> error_message row' = (case em of Some m \<Rightarrow> Some m | None \<Rightarrow> error_message row)
          \<and> row_id row' = row_id row \<and> transcription_id row' = transcription_id row"
  using assms
  by (auto simp: updateTranscriptionRequest_def appended_def Let_def split: option.splits)

lemma update_UpdateError:
  assumes "db w rid = Some row"
  shows "updateTranscriptionRequest (UpdateError m) rid seg st em w
           = (Inl (''Failed to update transcription request: '' @ m),
              logger LogError ''Failed to update transcription request'' w)"
  using assms by (simp add: updateTranscriptionRequest_def Let_def)

lemma update_FetchError:
  "updateTranscriptionRequest FetchError rid seg st em w
     = (Inr None, logger LogError
          ''Error fetching transcription request for update or request not found'' w)"
  by (simp add: updateTranscriptionRequest_def)

lemma update_missing:
  assumes "db w rid = None"
  shows "updateTranscriptionRequest flt rid seg st em w
     = (Inr None, logger LogError
          ''Error fetching transcription request for update or request not found'' w)"
  using assms by (simp add: updateTranscriptionRequest_def)

lemma update_keeps_prefix:
  assumes "db w rid = Some row" and "content row = Some c"
  shows "\<exists>row' rest. db (snd (updateTranscriptionRequest flt rid seg st em w)) rid = Some row'
           \<and> content row' = Some (c @ rest)"
proof (cases flt)
  case NoFault
  with assms show ?thesis
    by (auto simp: updateTranscriptionRequest_def Let_def)
next
  case FetchError
  with assms show ?thesis
    by (auto simp: update_FetchError logger_def intro: exI [of _ "[]"])
next
  case (UpdateError m)
  with assms show ?thesis
    by (auto simp: update_UpdateError logger_def intro: exI [of _ "[]"])
qed

section \<open>Claims about the compactor\<close>

lemma retained_chunk_ids:
  "chunk_id ` set (filter (\<lambda>e. \<not> is_placeholder e) (sorted_events buf))
   = {k \<in> chunk_id ` set buf. \<exists>e. last_received buf k = Some e \<and> \<not> is_placeholder e}"
  (is "?L = ?R")
proof (intro set_eqI iffI)
  fix k assume "k \<in> ?L"
  then obtain e where e: "e \<in> set (sorted_events buf)" "\<not> is_placeholder e" "k = chunk_id e"
    by auto
  from e(1) have "last_received buf (chunk_id e) = Some e"
    by (rule last_received_sorted_events)
  with e show "k \<in> ?R" using last_received_chunk [of buf k e] by auto
next
  fix k assume "k \<in> ?R"
  then obtain e where e: "last_received buf k = Some e" "\<not> is_placeholder e" by auto
  then have "e \<in> set (sorted_events buf)" "chunk_id e = k"
    using last_received_chunk [of buf k e] by (auto simp: set_sorted_events)
  with e show "k \<in> ?L" by force
qed

lemma sorted_events_unique:
  assumes "set (sorted_events buf') = set (sorted_events buf)"
    and "distinct (map start_time (sorted_events buf))"
  shows "sorted_events buf' = sorted_events buf"
proof -
  let ?xs = "sorted_events buf" and ?ys = "sorted_events buf'"
  from assms(2) have inj: "inj_on start_time (set ?xs)"
    by (simp add: distinct_map)
  have "distinct ?ys"
    using distinct_sorted_events [of buf'] by (simp add: distinct_map)
  with inj assms(1) have dy: "distinct (map start_time ?ys)"
    by (simp add: distinct_map)
  have "map start_time ?ys = map start_time ?xs"
    by (rule sorted_distinct_set_unique)
       (simp_all add: sorted_sorted_events dy assms)
  moreover have "inj_on start_time (set ?ys \<union> set ?xs)"
    using inj assms(1) by simp
  ultimately show ?thesis
    by (simp add: inj_on_map_eq_map)
qed

lemma flushBuffer_returns:
  assumes "fst (flushBuffer flt w) = Inr ()" and "truthy (requestId w)"
  shows "buffer (snd (flushBuffer flt w)) = []"
  using assms
  by (auto simp: flushBuffer_def processBufferToTranscript_def Let_def
           split: prod.splits sum.splits if_splits)

text \<open>
  Claim C4, as amended. For every buffer the transcript has exactly one line for each chunk id
  whose fragment received last is not a placeholder, and that line is the line
  \<open>speaker: text\<close> of the fragment received last for the id; a chunk id whose last fragment
  is a placeholder (blank text and no identified speaker) has no line. Here \<open>es\<close> are the
  fragments behind the lines, one per chunk id.
\<close>

theorem compact_one_line_per_chunk:
  "\<exists>es. distinct (map chunk_id es)
      \<and> set es = {e. \<exists>k. last_received (buffer w) k = Some e \<and> \<not> is_placeholder e}
      \<and> transcript_lines (buffer w) = map speaker_line es
      \<and> fst (processBufferToTranscript w) = join newline (map speaker_line es)
      \<and> length (transcript_lines (buffer w))
          = card {k \<in> chunk_id ` set (buffer w).
                    \<exists>e. last_received (buffer w) k = Some e \<and> \<not> is_placeholder e}"
proof -
  define es where "es = filter (\<lambda>e. \<not> is_placeholder e) (sorted_events (buffer w))"
  have d: "distinct (map chunk_id es)"
    unfolding es_def by (rule distinct_map_filter) (rule distinct_sorted_events)
  have s: "set es = {e. \<exists>k. last_received (buffer w) k = Some e \<and> \<not> is_placeholder e}"
    unfolding es_def by (auto simp: set_sorted_events)
  have l: "transcript_lines (buffer w) = map speaker_line es"
    unfolding es_def by (rule transcript_lines_eq)
  have "length (transcript_lines (buffer w)) = length (map chunk_id es)"
    by (simp add: l)
  also have "\<dots> = card (set (map chunk_id es))"
    using d by (simp only: distinct_card)
  also have "set (map chunk_id es) = {k \<in> chunk_id ` set (buffer w).
      \<exists>e. last_received (buffer w) k = Some e \<and> \<not> is_placeholder e}"
    unfolding es_def using retained_chunk_ids [of "buffer w"] by simp
  finally have c: "length (transcript_lines (buffer w)) = card {k \<in> chunk_id ` set (buffer w).
      \<exists>e. last_received (buffer w) k = Some e \<and> \<not> is_placeholder e}" .
  from d s l c show ?thesis
    by (intro exI [of _ es]) (simp add: processBufferToTranscript_def)
qed

text \<open>
  The theorem of C4 at the buffer of Alice's fragment, a placeholder and the correction of
  Alice's fragment: two chunk ids, one line, and it is the line of the correction.
\<close>

theorem compact_one_line_per_chunk_witness:
  "(\<exists>es. distinct (map chunk_id es)
      \<and> set es = {e. \<exists>k. last_received (buffer session_corrected) k = Some e
                      \<and> \<not> is_placeholder e}
      \<and> transcript_lines (buffer session_corrected) = map speaker_line es
      \<and> fst (processBufferToTranscript session_corrected) = join newline (map speaker_line es)
      \<and> length (transcript_lines (buffer session_corrected))
          = card {k \<in> chunk_id ` set (buffer session_corrected).
                    \<exists>e. last_received (buffer session_corrected) k = Some e
                      \<and> \<not> is_placeholder e})
   \<and> transcript_lines (buffer session_corrected) = [''Alice: hello world'']"
proof
  show "\<exists>es. distinct (map chunk_id es)
      \<and> set es = {e. \<exists>k. last_received (buffer session_corrected) k = Some e
                      \<and> \<not> is_placeholder e}
      \<and> transcript_lines (buffer session_corrected) = map speaker_line es
      \<and> fst (processBufferToTranscript session_corrected) = join newline (map speaker_line es)
      \<and> length (transcript_lines (buffer session_corrected))
          = card {k \<in> chunk_id ` set (buffer session_corrected).
                    \<exists>e. last_received (buffer session_corrected) k = Some e
                      \<and> \<not> is_placeholder e}"
    by (rule compact_one_line_per_chunk)
  show "transcript_lines (buffer session_corrected) = [''Alice: hello world'']"
    by (simp add: session_corrected_eval alice_hello_def silence_def alice_hello_world_def
          compactor_defs Let_def)
qed

text \<open>
  Claim C4 as it is written fails: a session that has received one placeholder fragment
  holds one chunk id, and its transcript has no line.
\<close>

theorem compact_placeholder_counterexample:
  "card (chunk_id ` set (buffer session_silent)) = 1
   \<and> transcript_lines (buffer session_silent) = []
   \<and> fst (processBufferToTranscript session_silent) = []"
  by (simp add: session_silent_eval silence_def processBufferToTranscript_def compactor_defs
        Let_def)

text \<open>
  Claim C5. For every buffer the transcript is the join, with newlines, of the lines
  \<open>speaker: text\<close> of the fragments kept (the fragment received last for each chunk id),
  without the placeholders, in ascending order of start time. The order of arrival does
  not matter: two buffers that keep the same fragments, with different start times, have the
  same transcript.
\<close>

theorem compact_sorted_by_start_time:
  "fst (processBufferToTranscript w)
     = join newline (map speaker_line (filter (\<lambda>e. \<not> is_placeholder e) (sorted_events (buffer w))))
   \<and> sorted (map start_time (filter (\<lambda>e. \<not> is_placeholder e) (sorted_events (buffer w))))
   \<and> set (sorted_events (buffer w)) = {e. \<exists>k. last_received (buffer w) k = Some e}
   \<and> (\<forall>w'. set (sorted_events (buffer w')) = set (sorted_events (buffer w))
             \<and> distinct (map start_time (sorted_events (buffer w)))
          \<longrightarrow> fst (processBufferToTranscript w') = fst (processBufferToTranscript w))"
proof (intro conjI allI impI)
  show "fst (processBufferToTranscript w)
     = join newline (map speaker_line (filter (\<lambda>e. \<not> is_placeholder e) (sorted_events (buffer w))))"
    by (simp add: processBufferToTranscript_def transcript_lines_eq)
  have "sorted (map start_time (sorted_events (buffer w)))"
    by (rule sorted_sorted_events)
  then show "sorted (map start_time (filter (\<lambda>e. \<not> is_placeholder e) (sorted_events (buffer w))))"
    by (rule sorted_filter)
  show "set (sorted_events (buffer w)) = {e. \<exists>k. last_received (buffer w) k = Some e}"
    by (rule set_sorted_events)
next
  fix w' :: world
  assume "set (sorted_events (buffer w')) = set (sorted_events (buffer w))
             \<and> distinct (map start_time (sorted_events (buffer w)))"
  then have "sorted_events (buffer w') = sorted_events (buffer w)"
    by (intro sorted_events_unique) simp_all
  then show "fst (processBufferToTranscript w') = fst (processBufferToTranscript w)"
    by (simp add: processBufferToTranscript_def transcript_lines_def)
qed

text \<open>
  The theorem of C5 at the example of the specification: the fragment that starts at 5
  arrives before the fragment that starts at 1.
\<close>

theorem compact_sorted_by_start_time_witness:
  "set (sorted_events (buffer session_a_then_b)) = set (sorted_events (buffer session_b_then_a))
   \<and> distinct (map start_time (sorted_events (buffer session_b_then_a)))
   \<and> fst (processBufferToTranscript session_a_then_b)
       = fst (processBufferToTranscript session_b_then_a)
   \<and> fst (processBufferToTranscript session_b_then_a) = ''Ann: a'' @ newline @ ''Bob: b''"
proof -
  have s: "sorted_events (buffer session_b_then_a) = [frag_a, frag_b]"
    by (simp add: session_b_then_a_eval frag_a_def frag_b_def sorted_events_def chunks_of_def
          Map_values_def)
  have s': "sorted_events (buffer session_a_then_b) = [frag_a, frag_b]"
    by (simp add: session_a_then_b_eval frag_a_def frag_b_def sorted_events_def chunks_of_def
          Map_values_def)
  have h: "set (sorted_events (buffer session_a_then_b))
             = set (sorted_events (buffer session_b_then_a))
           \<and> distinct (map start_time (sorted_events (buffer session_b_then_a)))"
    by (simp add: s s' frag_a_def frag_b_def)
  have e: "fst (processBufferToTranscript session_b_then_a) = ''Ann: a'' @ newline @ ''Bob: b''"
    by (simp add: processBufferToTranscript_def transcript_lines_def s frag_a_def frag_b_def
          format_event_def trim_def is_whitespace_def Let_def)
  from compact_sorted_by_start_time [of session_b_then_a] h
  have "fst (processBufferToTranscript session_a_then_b)
          = fst (processBufferToTranscript session_b_then_a)"
    by blast
  with h e show ?thesis by blast
qed

text \<open>
  Claim C6. The compactor leaves the manager as it is, so a second call returns what the
  first returned; and after a flush that returned (on a manager that has a request id) the
  buffer is empty and the transcript is the empty string.
\<close>

theorem compact_idempotent_and_empty_after_flush:
  "snd (processBufferToTranscript w) = w
   \<and> fst (processBufferToTranscript (snd (processBufferToTranscript w)))
       = fst (processBufferToTranscript w)
   \<and> (fst (flushBuffer flt w) = Inr () \<and> truthy (requestId w)
        \<longrightarrow> buffer (snd (flushBuffer flt w)) = []
          \<and> fst (processBufferToTranscript (snd (flushBuffer flt w))) = [])"
proof (intro conjI impI)
  show "snd (processBufferToTranscript w) = w"
    by (simp add: processBufferToTranscript_def)
  then show "fst (processBufferToTranscript (snd (processBufferToTranscript w)))
       = fst (processBufferToTranscript w)"
    by simp
next
  assume a: "fst (flushBuffer flt w) = Inr () \<and> truthy (requestId w)"
  then show b: "buffer (snd (flushBuffer flt w)) = []"
    by (intro flushBuffer_returns) simp_all
  then show "fst (processBufferToTranscript (snd (flushBuffer flt w))) = []"
    by (simp add: processBufferToTranscript_def transcript_lines_def sorted_events_def
          chunks_of_def Map_values_def)
qed

text \<open>The theorem of C6 at the session that buffers Alice's fragment.\<close>

theorem compact_idempotent_and_empty_after_flush_witness:
  "fst (flushBuffer NoFault session_buffering) = Inr ()
   \<and> truthy (requestId session_buffering)
   \<and> fst (processBufferToTranscript session_buffering) = ''Alice: hello''
   \<and> fst (processBufferToTranscript (snd (processBufferToTranscript session_buffering)))
       = ''Alice: hello''
   \<and> buffer (snd (flushBuffer NoFault session_buffering)) = []
   \<and> fst (processBufferToTranscript (snd (flushBuffer NoFault session_buffering))) = []"
proof -
  have h: "fst (flushBuffer NoFault session_buffering) = Inr ()
           \<and> truthy (requestId session_buffering)"
    by (simp add: session_buffering_eval session_started_eval gateway_defs flushBuffer_def
          processBufferToTranscript_def Let_def)
  have e: "fst (processBufferToTranscript session_buffering) = ''Alice: hello''"
    by (simp add: session_buffering_eval processBufferToTranscript_def transcript_alice_hello)
  from compact_idempotent_and_empty_after_flush [of session_buffering NoFault] h e
  show ?thesis by simp
qed

section \<open>Claims about the persistence gateway\<close>

text \<open>
  Claim C10, as amended. When the update is called with an empty segment and the stored
  content is a string that is not empty, the stored content becomes the previous content
  followed by a newline; when the stored content is the empty string, it stays the empty
  string. Whatever the segment and the outcome of the call, the previous content is a prefix
  of the stored content: nothing is cut off.
\<close>

theorem update_empty_segment:
  assumes "db w rid = Some row" and "content row = Some c"
  shows "(c \<noteq> [] \<longrightarrow>
            map_option content (db (snd (updateTranscriptionRequest NoFault rid [] st em w)) rid)
              = Some (Some (c @ newline)))
       \<and> (c = [] \<longrightarrow>
            map_option content (db (snd (updateTranscriptionRequest NoFault rid [] st em w)) rid)
              = Some (Some []))
       \<and> (\<forall>flt seg. \<exists>row' rest.
            db (snd (updateTranscriptionRequest flt rid seg st em w)) rid = Some row'
            \<and> content row' = Some (c @ rest))"
proof (intro conjI allI impI)
  assume "c \<noteq> []"
  with assms show "map_option content
      (db (snd (updateTranscriptionRequest NoFault rid [] st em w)) rid) = Some (Some (c @ newline))"
    by (simp add: updateTranscriptionRequest_def Let_def)
next
  assume "c = []"
  with assms show "map_option content
      (db (snd (updateTranscriptionRequest NoFault rid [] st em w)) rid) = Some (Some [])"
    by (simp add: updateTranscriptionRequest_def Let_def)
next
  fix flt seg
  from assms show "\<exists>row' rest.
      db (snd (updateTranscriptionRequest flt rid seg st em w)) rid = Some row'
      \<and> content row' = Some (c @ rest)"
    by (rule update_keeps_prefix)
qed

text \<open>
  The theorem of C10 at the record of the sample session after its first flush: the write of
  the status \<open>completed\<close> turns the content \<open>Alice: hello\<close> into the same line with a newline.
\<close>

theorem update_empty_segment_witness:
  "db session_flushed ''r1'' = Some \<lparr>row_id = ''r1'', transcription_id = ''t1'',
       status = Processing, content = Some ''Alice: hello'', error_message = None\<rparr>
   \<and> map_option content
        (db (snd (updateTranscriptionRequest NoFault ''r1'' [] (Some Completed) None
                    session_flushed)) ''r1'')
       = Some (Some (''Alice: hello'' @ newline))"
proof -
  have h: "db session_flushed ''r1'' = Some \<lparr>row_id = ''r1'', transcription_id = ''t1'',
       status = Processing, content = Some ''Alice: hello'', error_message = None\<rparr>"
    by (simp add: session_flushed_eval)
  from update_empty_segment [OF h, of "''Alice: hello''" "Some Completed" None] h
  show ?thesis by simp
qed

text \<open>
  Claim C10 as it is written fails where the stored content is the empty string, which is
  not \<^verbatim>\<open>null\<close>: it is what the first terminal write leaves in a record that had no
  content. A second terminal write leaves the empty string, not a newline.
\<close>

theorem update_empty_content_counterexample:
  "map_option content (db session_stopped_idle ''r1'') = Some (Some [])
   \<and> map_option content
        (db (snd (updateTranscriptionRequest NoFault ''r1'' [] (Some Error)
                    (Some ''WebSocket disconnected unexpectedly'') session_stopped_idle)) ''r1'')
       = Some (Some [])
   \<and> Some (Some []) \<noteq> Some (Some ([] @ newline))"
  by (simp add: session_stopped_idle_eval session_started_eval updateTranscriptionRequest_def
        newline_def Let_def)

section \<open>The manager: flushes, ticks and the error path\<close>


lemma flushBuffer_NoFault:
  assumes "buffer w \<noteq> []" "requestId w = Some rid" "rid \<noteq> []" "db w rid = Some row"
  shows "\<exists>row'. flushBuffer NoFault w = (Inr (), w\<lparr>db := (db w)(rid \<mapsto> row'), buffer := []\<rparr>)
           \<and> content row' = Some (appended (content row) (fst (processBufferToTranscript w)))
           \<and> status row' = status row \<and> error_message row' = error_message row"
proof -
  from update_NoFault [OF assms(4), of "fst (processBufferToTranscript w)" None None]
  obtain row' where r: "updateTranscriptionRequest NoFault rid (fst (processBufferToTranscript w))
        None None w = (Inr (Some row'), w\<lparr>db := (db w)(rid \<mapsto> row')\<rparr>)"
      "content row' = Some (appended (content row) (fst (processBufferToTranscript w)))"
      "status row' = status row" "error_message row' = error_message row"
    by auto
  from assms r(1) have "flushBuffer NoFault w
      = (Inr (), w\<lparr>db := (db w)(rid \<mapsto> row'), buffer := []\<rparr>)"
    by (simp add: flushBuffer_def processBufferToTranscript_def truthy_def)
  with r show ?thesis by blast
qed

lemma logger_fields [simp]:
  "session_fields (logger lvl msg w) = session_fields w"
  "db (logger lvl msg w) = db w"
  "sockets (logger lvl msg w) = sockets w"
  "logs (logger lvl msg w) = logs w @ [(lvl, msg)]"
  "buffer (logger lvl msg w) = buffer w"
  "requestId (logger lvl msg w) = requestId w"
  "flushTimer (logger lvl msg w) = flushTimer w"
  "inactivityTimer (logger lvl msg w) = inactivityTimer w"
  "isProcessingFlag (logger lvl msg w) = isProcessingFlag w"
  "socket (logger lvl msg w) = socket w"
  "lastFlushTime (logger lvl msg w) = lastFlushTime w"
  "transcriptionId (logger lvl msg w) = transcriptionId w"
  by (simp_all add: logger_def session_fields_def)

lemma transcript_logger [simp]:
  "fst (processBufferToTranscript (logger lvl msg w)) = fst (processBufferToTranscript w)"
  by (simp add: processBufferToTranscript_def)


lemma tick_NoFault:
  assumes "flushTimer w \<noteq> None" "buffer w \<noteq> []" "requestId w = Some rid" "rid \<noteq> []"
    "db w rid = Some row"
  shows "\<exists>row'. flush_timer_fires NoFault now w
            = w\<lparr>db := (db w)(rid \<mapsto> row'), buffer := [], lastFlushTime := now\<rparr>
           \<and> content row' = Some (appended (content row) (fst (processBufferToTranscript w)))
           \<and> status row' = status row \<and> error_message row' = error_message row"
proof -
  from flushBuffer_NoFault [OF assms(2-5)] obtain row' where
    r: "flushBuffer NoFault w = (Inr (), w\<lparr>db := (db w)(rid \<mapsto> row'), buffer := []\<rparr>)"
       "content row' = Some (appended (content row) (fst (processBufferToTranscript w)))"
       "status row' = status row" "error_message row' = error_message row"
    by blast
  from assms r(1) have "flush_timer_fires NoFault now w
            = w\<lparr>db := (db w)(rid \<mapsto> row'), buffer := [], lastFlushTime := now\<rparr>"
    by (simp add: flush_timer_fires_def flushTimerCallback_def unhandledRejection_def)
  with r show ?thesis by blast
qed

lemma tick_empty:
  assumes "flushTimer w \<noteq> None" "buffer w = []"
  shows "flush_timer_fires flt now w = w\<lparr>lastFlushTime := now\<rparr>"
  using assms
  by (simp add: flush_timer_fires_def flushTimerCallback_def unhandledRejection_def)

lemma update_frame:
  "session_fields (snd (updateTranscriptionRequest flt rid seg st em w)) = session_fields w"
  "sockets (snd (updateTranscriptionRequest flt rid seg st em w)) = sockets w"
  by (auto simp: updateTranscriptionRequest_def session_fields_def logger_def Let_def
           split: option.splits fault.splits)

lemma update_returns_or_UpdateError:
  "(\<exists>r. fst (updateTranscriptionRequest flt rid seg st em w) = Inr r)
   \<or> (\<exists>m row. flt = UpdateError m \<and> db w rid = Some row)"
  by (cases flt) (auto simp: updateTranscriptionRequest_def Let_def split: option.splits)

lemma socket_disconnect_fields [simp]:
  "session_fields (socket_disconnect s w) = session_fields w"
  "requestId (socket_disconnect s w) = requestId w"
  "socket (socket_disconnect s w) = socket w"
  "db (socket_disconnect s w) = db w"
  "logs (socket_disconnect s w) = logs w"
  by (simp_all add: socket_disconnect_def session_fields_def)

lemma socket_connect_fields [simp]:
  "session_fields (socket_connect s w) = session_fields w"
  "requestId (socket_connect s w) = requestId w"
  "socket (socket_connect s w) = socket w"
  "db (socket_connect s w) = db w"
  "logs (socket_connect s w) = logs w"
  by (simp_all add: socket_connect_def session_fields_def)

lemma closed_session_fields:
  "session_fields (closed_session w)
     = (None, requestId w, transcriptionId w, buffer w, lastFlushTime w, None, None, False)"
  "db (closed_session w) = db w"
  "logs (closed_session w) = logs w"
  "requestId (closed_session w) = requestId w"
  by (auto simp: closed_session_def session_fields_def socket_disconnect_def Let_def
           split: option.splits)

lemma closed_session_sockets:
  "sockets (closed_session w)
     = (case socket w of Some s \<Rightarrow> sockets (socket_disconnect s w) | None \<Rightarrow> sockets w)"
  by (auto simp: closed_session_def socket_disconnect_def Let_def split: option.splits)

lemma closed_session_idem: "closed_session (closed_session w) = closed_session w"
  by (auto simp: closed_session_def socket_disconnect_def Let_def split: option.splits)

lemma clear_flushTimer:
  "(if flushTimer w \<noteq> None then w\<lparr>flushTimer := None\<rparr> else w) = w\<lparr>flushTimer := None\<rparr>"
  by (cases w) simp

lemma clear_inactivityTimer:
  "(if inactivityTimer w \<noteq> None then w\<lparr>inactivityTimer := None\<rparr> else w)
     = w\<lparr>inactivityTimer := None\<rparr>"
  by (cases w) simp

lemma handleError_unfold:
  "handleError flt message w =
     (Inr (), logger LogError ''Transcription error''
        (case requestId w of
           None \<Rightarrow> closed_session w
         | Some rid \<Rightarrow>
             if rid \<noteq> [] then
               (case updateTranscriptionRequest flt rid [] (Some Error) (Some message)
                       (closed_session w) of
                  (Inr _, w') \<Rightarrow> w'
                | (Inl _, w') \<Rightarrow>
                    logger LogError
                      ''Failed to update transcription request with error status'' w')
             else closed_session w))"
  unfolding handleError_def closed_session_def Let_def clear_flushTimer clear_inactivityTimer
  by (simp split: option.splits)

lemma swallow_frame:
  "session_fields (case r of (Inr x, w') \<Rightarrow> w' | (Inl x, w') \<Rightarrow> logger l m w')
     = session_fields (snd r)"
  "sockets (case r of (Inr x, w') \<Rightarrow> w' | (Inl x, w') \<Rightarrow> logger l m w') = sockets (snd r)"
  "db (case r of (Inr x, w') \<Rightarrow> w' | (Inl x, w') \<Rightarrow> logger l m w') = db (snd r)"
  by (cases r; cases "fst r"; simp)+

lemma handleError_returns: "fst (handleError flt message w) = Inr ()"
  by (simp add: handleError_unfold)

lemma handleError_fields:
  "session_fields (snd (handleError flt message w))
     = (None, requestId w, transcriptionId w, buffer w, lastFlushTime w, None, None, False)"
  by (simp add: handleError_unfold swallow_frame update_frame closed_session_fields
           split: option.splits)

lemma handleError_sockets:
  "sockets (snd (handleError flt message w)) = sockets (closed_session w)"
  by (simp add: handleError_unfold swallow_frame update_frame split: option.splits)

lemma handleError_db:
  "db (snd (handleError flt message w))
     = (case requestId w of
          None \<Rightarrow> db w
        | Some rid \<Rightarrow>
            if rid \<noteq> []
            then db (snd (updateTranscriptionRequest flt rid [] (Some Error) (Some message)
                            (closed_session w)))
            else db w)"
  by (simp add: handleError_unfold swallow_frame closed_session_fields split: option.splits)

lemma handleError_closes_socket:
  assumes "socket w = Some s" and "s < length (sockets w)"
  shows "\<not> is_open (sockets (snd (handleError flt message w)) ! s)"
  using assms
  by (simp add: handleError_sockets closed_session_def socket_disconnect_def Let_def)

lemma handleError_persists:
  assumes "requestId w = Some rid" and "rid \<noteq> []" and "db w rid = Some row"
  shows "\<exists>row'. db (snd (handleError NoFault message w)) rid = Some row'
           \<and> status row' = Error \<and> error_message row' = Some message
           \<and> content row' = Some (appended (content row) [])"
proof -
  have "db (closed_session w) rid = Some row"
    using assms(3) by (simp add: closed_session_fields)
  from update_NoFault [OF this, of "[]" "Some Error" "Some message"] assms(1,2)
  show ?thesis by (auto simp: handleError_db)
qed

lemma handleError_swallows:
  assumes "requestId w = Some rid" and "rid \<noteq> []" and "db w rid = Some row"
  shows "db (snd (handleError (UpdateError m) message w)) = db w
       \<and> (LogError, ''Failed to update transcription request with error status'')
            \<in> set (logs (snd (handleError (UpdateError m) message w)))"
proof -
  have "db (closed_session w) rid = Some row"
    using assms(3) by (simp add: closed_session_fields)
  then have "updateTranscriptionRequest (UpdateError m) rid [] (Some Error) (Some message)
      (closed_session w) = (Inl (''Failed to update transcription request: '' @ m),
              logger LogError ''Failed to update transcription request'' (closed_session w))"
    by (rule update_UpdateError)
  with assms(1,2) show ?thesis
    by (simp add: handleError_unfold closed_session_fields)
qed

lemma handleError_twice_fields:
  "session_fields (snd (handleError flt' message (snd (handleError flt message w))))
     = session_fields (snd (handleError flt message w))"
proof -
  let ?w' = "snd (handleError flt message w)"
  have "session_fields ?w'
     = (None, requestId w, transcriptionId w, buffer w, lastFlushTime w, None, None, False)"
    by (rule handleError_fields)
  then have "requestId ?w' = requestId w" "transcriptionId ?w' = transcriptionId w"
    "buffer ?w' = buffer w" "lastFlushTime ?w' = lastFlushTime w"
    by (simp_all add: session_fields_def)
  then show ?thesis by (simp add: handleError_fields)
qed

lemma handleError_twice_sockets:
  "sockets (snd (handleError flt' message (snd (handleError flt message w))))
     = sockets (snd (handleError flt message w))"
proof -
  let ?w' = "snd (handleError flt message w)"
  have "session_fields ?w'
     = (None, requestId w, transcriptionId w, buffer w, lastFlushTime w, None, None, False)"
    by (rule handleError_fields)
  then have "socket ?w' = None" by (simp add: session_fields_def)
  then show ?thesis
    by (simp add: handleError_sockets [of flt' message ?w'] closed_session_def Let_def)
qed

lemma handleError_twice_status:
  assumes "requestId w = Some rid" and "rid \<noteq> []" and "db w rid = Some row"
  shows "\<exists>row1 row2. db (snd (handleError NoFault message w)) rid = Some row1
           \<and> db (snd (handleError NoFault message (snd (handleError NoFault message w)))) rid
               = Some row2
           \<and> status row2 = status row1 \<and> error_message row2 = error_message row1
           \<and> content row2 = Some (appended (content row1) [])"
proof -
  let ?w' = "snd (handleError NoFault message w)"
  from handleError_persists [OF assms] obtain row1 where
    r1: "db ?w' rid = Some row1" "status row1 = Error" "error_message row1 = Some message"
    by blast
  have "session_fields ?w'
     = (None, requestId w, transcriptionId w, buffer w, lastFlushTime w, None, None, False)"
    by (rule handleError_fields)
  then have "requestId ?w' = Some rid" using assms(1) by (simp add: session_fields_def)
  from handleError_persists [OF this assms(2) r1(1), of message] r1 show ?thesis
    by auto
qed

lemma on_disconnect_recoverable:
  assumes "isProcessingFlag w"
    and "reason = ''io server disconnect'' \<or> reason = ''io client disconnect''"
  shows "on_disconnect reason flt w
           = (case socket w of
                Some s \<Rightarrow> socket_connect s
                            (logger LogWarn ''Unexpected WebSocket disconnection'' w)
              | None \<Rightarrow> logger LogWarn ''Unexpected WebSocket disconnection'' w)"
  using assms by (auto simp: on_disconnect_def Let_def)

lemma on_disconnect_fatal:
  assumes "isProcessingFlag w"
    and "reason \<noteq> ''io server disconnect''" and "reason \<noteq> ''io client disconnect''"
  shows "on_disconnect reason flt w
           = snd (handleError flt ''WebSocket disconnected unexpectedly''
                    (logger LogWarn ''Unexpected WebSocket disconnection'' w))"
  using assms by (simp add: on_disconnect_def Let_def)

lemma broadcast_early:
  assumes "now - lastFlushTime w < FLUSH_INTERVAL"
  shows "on_transcription_broadcast (Some p) now flt flt_err w
           = (resetInactivityTimer w)\<lparr>buffer := buffer w @ [p]\<rparr>"
  using assms by (simp add: on_transcription_broadcast_def resetInactivityTimer_def Let_def)

lemma broadcast_late:
  assumes "now - lastFlushTime w \<ge> FLUSH_INTERVAL"
    and "requestId w = Some rid" and "rid \<noteq> []" and "db w rid = Some row"
  shows "\<exists>row'. on_transcription_broadcast (Some p) now NoFault flt_err w
            = (resetInactivityTimer w)\<lparr>buffer := buffer w @ [p], db := (db w)(rid \<mapsto> row'),
                 buffer := [], lastFlushTime := now\<rparr>
          \<and> content row' = Some (appended (content row)
               (fst (processBufferToTranscript (w\<lparr>buffer := buffer w @ [p]\<rparr>))))"
proof -
  let ?w2 = "(resetInactivityTimer w)\<lparr>buffer := buffer w @ [p]\<rparr>"
  have pre: "buffer ?w2 \<noteq> []" "requestId ?w2 = Some rid" "db ?w2 rid = Some row"
    using assms by (simp_all add: resetInactivityTimer_def)
  from flushBuffer_NoFault [OF pre(1) pre(2) assms(3) pre(3)] obtain row' where
    r: "flushBuffer NoFault ?w2 = (Inr (), ?w2\<lparr>db := (db ?w2)(rid \<mapsto> row'), buffer := []\<rparr>)"
       "content row' = Some (appended (content row) (fst (processBufferToTranscript ?w2)))"
    by blast
  have t: "fst (processBufferToTranscript ?w2)
             = fst (processBufferToTranscript (w\<lparr>buffer := buffer w @ [p]\<rparr>))"
    by (simp add: processBufferToTranscript_def resetInactivityTimer_def)
  have "on_transcription_broadcast (Some p) now NoFault flt_err w
          = ?w2\<lparr>db := (db w)(rid \<mapsto> row'), buffer := [], lastFlushTime := now\<rparr>"
    using assms(1) r(1)
    by (simp add: on_transcription_broadcast_def Let_def resetInactivityTimer_def)
  with r(2) t show ?thesis by auto
qed



lemma tick_FetchError:
  assumes "flushTimer w \<noteq> None" "buffer w \<noteq> []" "requestId w = Some rid" "rid \<noteq> []"
  shows "flush_timer_fires FetchError now w
           = (logger LogError
                ''Error fetching transcription request for update or request not found'' w)
              \<lparr>buffer := [], lastFlushTime := now\<rparr>"
  using assms
  by (simp add: flush_timer_fires_def flushTimerCallback_def unhandledRejection_def
        flushBuffer_def processBufferToTranscript_def truthy_def update_FetchError)


lemma stop_tail_NoFault:
  assumes "requestId w3 = Some rid" and "rid \<noteq> []" and "db w3 rid = Some row1"
  shows "\<exists>row' w5.
           (let w4 = (case socket w3 of
                        Some s \<Rightarrow> (socket_disconnect s w3)\<lparr>socket := None\<rparr>
                      | None \<Rightarrow> w3)
            in case requestId w4 of
                 None \<Rightarrow> (Inr (), w4)
               | Some rid \<Rightarrow>
                   if rid \<noteq> [] then
                     (case updateTranscriptionRequest NoFault rid [] (Some Completed) None w4 of
                        (Inr _, w5) \<Rightarrow> (Inr (), w5)
                      | (Inl m, w5) \<Rightarrow> (Inl m, w5))
                   else (Inr (), w4)) = (Inr (), w5)
           \<and> buffer w5 = buffer w3 \<and> db w5 rid = Some row'
           \<and> content row' = Some (appended (content row1) []) \<and> status row' = Completed"
proof -
  let ?w4 = "case socket w3 of
               Some s \<Rightarrow> (socket_disconnect s w3)\<lparr>socket := None\<rparr>
             | None \<Rightarrow> w3"
  have w4: "db ?w4 rid = Some row1" "requestId ?w4 = Some rid" "buffer ?w4 = buffer w3"
    using assms by (simp_all add: socket_disconnect_def split: option.splits)
  from update_NoFault [OF w4(1), of "[]" "Some Completed" None] obtain row' where
    u: "updateTranscriptionRequest NoFault rid [] (Some Completed) None ?w4
          = (Inr (Some row'), ?w4\<lparr>db := (db ?w4)(rid \<mapsto> row')\<rparr>)"
       "content row' = Some (appended (content row1) [])" "status row' = Completed"
    by auto
  show ?thesis
    apply (rule exI [of _ row'])
    apply (rule exI [of _ "?w4\<lparr>db := (db ?w4)(rid \<mapsto> row')\<rparr>"])
    unfolding Let_def w4(2) using assms(2) u w4(3) by simp
qed

lemma stop_NoFault:
  assumes "buffer w \<noteq> []" and "requestId w = Some rid" and "rid \<noteq> []"
    and "db w rid = Some row"
  shows "\<exists>row'. fst (stopTranscription NoFault NoFault w) = Inr ()
           \<and> buffer (snd (stopTranscription NoFault NoFault w)) = []
           \<and> db (snd (stopTranscription NoFault NoFault w)) rid = Some row'
           \<and> content row' = Some (appended
                 (Some (appended (content row) (fst (processBufferToTranscript w)))) [])
           \<and> status row' = Completed"
proof -
  let ?w2 = "w\<lparr>isProcessingFlag := False, flushTimer := None\<rparr>"
  have pre: "buffer ?w2 \<noteq> []" "requestId ?w2 = Some rid" "db ?w2 rid = Some row"
    using assms by simp_all
  from flushBuffer_NoFault [OF pre(1) pre(2) assms(3) pre(3)] obtain row1 where
    f: "flushBuffer NoFault ?w2 = (Inr (), ?w2\<lparr>db := (db ?w2)(rid \<mapsto> row1), buffer := []\<rparr>)"
       "content row1 = Some (appended (content row) (fst (processBufferToTranscript ?w2)))"
    by blast
  let ?w3 = "?w2\<lparr>db := (db ?w2)(rid \<mapsto> row1), buffer := []\<rparr>"
  have w3: "requestId ?w3 = Some rid" "db ?w3 rid = Some row1" "buffer ?w3 = []"
    using assms(2) by simp_all
  from stop_tail_NoFault [OF w3(1) assms(3) w3(2)] obtain row' w5 where
    t: "(let w4 = (case socket ?w3 of
                        Some s \<Rightarrow> (socket_disconnect s ?w3)\<lparr>socket := None\<rparr>
                      | None \<Rightarrow> ?w3)
            in case requestId w4 of
                 None \<Rightarrow> (Inr (), w4)
               | Some rid \<Rightarrow>
                   if rid \<noteq> [] then
                     (case updateTranscriptionRequest NoFault rid [] (Some Completed) None w4 of
                        (Inr _, w5) \<Rightarrow> (Inr (), w5)
                      | (Inl m, w5) \<Rightarrow> (Inl m, w5))
                   else (Inr (), w4)) = (Inr (), w5)"
       "buffer w5 = buffer ?w3" "db w5 rid = Some row'"
       "content row' = Some (appended (content row1) [])" "status row' = Completed"
    by blast
  have p: "fst (processBufferToTranscript ?w2) = fst (processBufferToTranscript w)"
    by (simp add: processBufferToTranscript_def)
  have b: "0 < length (buffer ?w2)" using assms(1) by simp
  have "stopTranscription NoFault NoFault w = (Inr (), w5)"
    unfolding stopTranscription_def Let_def clear_flushTimer
    by (simp only: b if_True f(1) prod.case sum.case t(1) [unfolded Let_def])
  with t(2-5) f(2) p w3(3) show ?thesis by simp
qed

lemma stop_empty_NoFault:
  assumes "buffer w = []" and "requestId w = Some rid" and "rid \<noteq> []"
    and "db w rid = Some row"
  shows "\<exists>row'. fst (stopTranscription NoFault NoFault w) = Inr ()
           \<and> buffer (snd (stopTranscription NoFault NoFault w)) = []
           \<and> db (snd (stopTranscription NoFault NoFault w)) rid = Some row'
           \<and> content row' = Some (appended (content row) [])
           \<and> status row' = Completed"
proof -
  let ?w3 = "w\<lparr>isProcessingFlag := False, flushTimer := None\<rparr>"
  have w3: "requestId ?w3 = Some rid" "db ?w3 rid = Some row" "buffer ?w3 = []"
    using assms by simp_all
  from stop_tail_NoFault [OF w3(1) assms(3) w3(2)] obtain row' w5 where
    t: "(let w4 = (case socket ?w3 of
                        Some s \<Rightarrow> (socket_disconnect s ?w3)\<lparr>socket := None\<rparr>
                      | None \<Rightarrow> ?w3)
            in case requestId w4 of
                 None \<Rightarrow> (Inr (), w4)
               | Some rid \<Rightarrow>
                   if rid \<noteq> [] then
                     (case updateTranscriptionRequest NoFault rid [] (Some Completed) None w4 of
                        (Inr _, w5) \<Rightarrow> (Inr (), w5)
                      | (Inl m, w5) \<Rightarrow> (Inl m, w5))
                   else (Inr (), w4)) = (Inr (), w5)"
       "buffer w5 = buffer ?w3" "db w5 rid = Some row'"
       "content row' = Some (appended (content row) [])" "status row' = Completed"
    by blast
  have b: "\<not> 0 < length (buffer ?w3)" using assms(1) by simp
  have "stopTranscription NoFault NoFault w = (Inr (), w5)"
    unfolding stopTranscription_def Let_def clear_flushTimer
    by (simp only: b if_False prod.case sum.case t(1) [unfolded Let_def])
  with t(2-5) w3(3) show ?thesis by simp
qed

lemma inactivity_NoFault:
  assumes "inactivityTimer w \<noteq> None" and "buffer w \<noteq> []" and "requestId w = Some rid"
    and "rid \<noteq> []" and "db w rid = Some row"
  shows "\<exists>row'. buffer (inactivity_timer_fires NoFault NoFault NoFault w) = []
           \<and> db (inactivity_timer_fires NoFault NoFault NoFault w) rid = Some row'
           \<and> content row' = Some (appended
                 (Some (appended (content row) (fst (processBufferToTranscript w)))) [])
           \<and> status row' = Completed"
proof -
  let ?w2 = "(logger LogWarn
     ''No Fireflies messages received for 10 minutes. Automatically stopping transcription.'' w)
       \<lparr>inactivityTimer := None\<rparr>"
  have pre: "buffer ?w2 \<noteq> []" "requestId ?w2 = Some rid" "db ?w2 rid = Some row"
    using assms by (simp_all add: logger_def)
  from flushBuffer_NoFault [OF pre(1) pre(2) assms(4) pre(3)] obtain row1 where
    f: "flushBuffer NoFault ?w2 = (Inr (), ?w2\<lparr>db := (db ?w2)(rid \<mapsto> row1), buffer := []\<rparr>)"
       "content row1 = Some (appended (content row) (fst (processBufferToTranscript ?w2)))"
    by blast
  let ?w3 = "?w2\<lparr>db := (db ?w2)(rid \<mapsto> row1), buffer := []\<rparr>"
  have w3: "buffer ?w3 = []" "requestId ?w3 = Some rid" "db ?w3 rid = Some row1"
    using pre(2) by simp_all
  from stop_empty_NoFault [OF w3(1) w3(2) assms(4) w3(3)] obtain row' where
    s: "fst (stopTranscription NoFault NoFault ?w3) = Inr ()"
       "buffer (snd (stopTranscription NoFault NoFault ?w3)) = []"
       "db (snd (stopTranscription NoFault NoFault ?w3)) rid = Some row'"
       "content row' = Some (appended (content row1) [])" "status row' = Completed"
    by blast
  have p: "fst (processBufferToTranscript ?w2) = fst (processBufferToTranscript w)"
    by (simp add: processBufferToTranscript_def logger_def)
  have b: "0 < length (buffer ?w2)" using pre(1) by simp
  have h: "handleInactivityTimeout NoFault NoFault NoFault w
             = stopTranscription NoFault NoFault ?w3"
    unfolding handleInactivityTimeout_def Let_def clear_inactivityTimer
    by (simp only: b if_True f(1) prod.case sum.case)
  have "inactivity_timer_fires NoFault NoFault NoFault w
          = snd (stopTranscription NoFault NoFault ?w3)"
    using assms(1) s(1)
    by (cases "stopTranscription NoFault NoFault ?w3")
       (simp add: inactivity_timer_fires_def h unhandledRejection_def)
  with s f(2) p show ?thesis by simp
qed

lemma handleError_buffer:
  "buffer (snd (handleError flt message w)) = buffer w"
  using handleError_fields [of flt message w] by (simp add: session_fields_def)


section \<open>Claims about the session\<close>






text \<open>
  Claim C8, as amended. \<^verbatim>\<open>handleError\<close> never throws. From any state it leaves the
  manager not processing, with both timers cleared and no socket, and the socket it held
  is disconnected. With a request id whose record exists, a write that succeeds stores the
  status \<open>error\<close> and the message; a write that throws is logged, changes nothing in the
  store, and the manager is closed all the same. A second call changes no field of the
  manager and no socket, and it stores the same status and message; it is not idempotent on
  the stored content, to which every call appends an empty block.
\<close>

theorem handleError_terminal:
  "fst (handleError flt message w) = Inr ()
   \<and> session_fields (snd (handleError flt message w))
       = (None, requestId w, transcriptionId w, buffer w, lastFlushTime w, None, None, False)
   \<and> (\<forall>s. socket w = Some s \<and> s < length (sockets w)
          \<longrightarrow> \<not> is_open (sockets (snd (handleError flt message w)) ! s))
   \<and> (\<forall>rid row. requestId w = Some rid \<and> rid \<noteq> [] \<and> db w rid = Some row \<longrightarrow>
          (\<exists>row'. db (snd (handleError NoFault message w)) rid = Some row'
             \<and> status row' = Error \<and> error_message row' = Some message
             \<and> content row' = Some (appended (content row) []))
        \<and> (\<forall>m. db (snd (handleError (UpdateError m) message w)) = db w
             \<and> (LogError, ''Failed to update transcription request with error status'')
                  \<in> set (logs (snd (handleError (UpdateError m) message w))))
        \<and> (\<exists>row1 row2. db (snd (handleError NoFault message w)) rid = Some row1
             \<and> db (snd (handleError NoFault message (snd (handleError NoFault message w)))) rid
                 = Some row2
             \<and> status row2 = status row1 \<and> error_message row2 = error_message row1
             \<and> content row2 = Some (appended (content row1) [])))
   \<and> session_fields (snd (handleError flt' message (snd (handleError flt message w))))
       = session_fields (snd (handleError flt message w))
   \<and> sockets (snd (handleError flt' message (snd (handleError flt message w))))
       = sockets (snd (handleError flt message w))"
  using handleError_returns [of flt message w] handleError_fields [of flt message w]
    handleError_closes_socket [of w _ flt message]
    handleError_persists [of w _ _ message] handleError_swallows [of w _ _ _ message]
    handleError_twice_status [of w _ _ message]
    handleError_twice_fields [of flt' message flt w]
    handleError_twice_sockets [of flt' message flt w]
  by (intro conjI allI impI) blast+

text \<open>
  The theorem of C8 at the sample session after its first flush, with a write that succeeds
  and with a write that throws.
\<close>

theorem handleError_terminal_witness:
  "socket session_flushed = Some 0 \<and> 0 < length (sockets session_flushed)
   \<and> requestId session_flushed = Some ''r1''
   \<and> fst (handleError NoFault ''boom'' session_flushed) = Inr ()
   \<and> session_fields (snd (handleError NoFault ''boom'' session_flushed))
       = (None, Some ''r1'', Some ''t1'', [], 15000, None, None, False)
   \<and> \<not> is_open (sockets (snd (handleError NoFault ''boom'' session_flushed)) ! 0)
   \<and> (\<exists>row'. db (snd (handleError NoFault ''boom'' session_flushed)) ''r1'' = Some row'
          \<and> status row' = Error \<and> error_message row' = Some ''boom''
          \<and> content row' = Some (''Alice: hello'' @ newline))
   \<and> db (snd (handleError (UpdateError ''timeout'') ''boom'' session_flushed))
       = db session_flushed"
proof -
  have h: "socket session_flushed = Some 0 \<and> 0 < length (sockets session_flushed)"
    by (simp add: session_flushed_eval session_started_eval)
  have r: "requestId session_flushed = Some ''r1'' \<and> ''r1'' \<noteq> []
           \<and> db session_flushed ''r1'' = Some \<lparr>row_id = ''r1'', transcription_id = ''t1'',
                status = Processing, content = Some ''Alice: hello'', error_message = None\<rparr>"
    by (simp add: session_flushed_eval session_started_eval)
  have f: "(None, requestId session_flushed, transcriptionId session_flushed,
            buffer session_flushed, lastFlushTime session_flushed, None, None, False)
           = (None, Some ''r1'', Some ''t1'', [], 15000, None, None, False)"
    by (simp add: session_flushed_eval session_started_eval)
  note t = handleError_terminal [of NoFault "''boom''" session_flushed NoFault]
  note t1 = t [THEN conjunct1]
  note t2 = t [THEN conjunct2, THEN conjunct1]
  note t3 = t [THEN conjunct2, THEN conjunct2, THEN conjunct1, rule_format, OF h]
  note t4 = t [THEN conjunct2, THEN conjunct2, THEN conjunct2, THEN conjunct1, rule_format, OF r]
  from t2 f have 2: "session_fields (snd (handleError NoFault ''boom'' session_flushed))
       = (None, Some ''r1'', Some ''t1'', [], 15000, None, None, False)"
    by (rule trans)
  from t4 [THEN conjunct1] have 4: "\<exists>row'.
        db (snd (handleError NoFault ''boom'' session_flushed)) ''r1'' = Some row'
          \<and> status row' = Error \<and> error_message row' = Some ''boom''
          \<and> content row' = Some (''Alice: hello'' @ newline)"
    by (simp add: appended_def)
  from t4 [THEN conjunct2, THEN conjunct1, rule_format, of "''timeout''"]
  have 5: "db (snd (handleError (UpdateError ''timeout'') ''boom'' session_flushed))
       = db session_flushed"
    by (rule conjunct1)
  from h r t1 2 t3 4 5 show ?thesis by simp
qed

text \<open>
  Claim C8 as it is written fails on the store: a second call appends a second newline to
  the content of the record.
\<close>

theorem handleError_not_idempotent_counterexample:
  "map_option content (db (snd (handleError NoFault ''boom'' session_flushed)) ''r1'')
     = Some (Some (''Alice: hello'' @ newline))
   \<and> map_option content
        (db (snd (handleError NoFault ''boom''
                    (snd (handleError NoFault ''boom'' session_flushed)))) ''r1'')
     = Some (Some (''Alice: hello'' @ newline @ newline))
   \<and> db (snd (handleError NoFault ''boom'' (snd (handleError NoFault ''boom'' session_flushed))))
       \<noteq> db (snd (handleError NoFault ''boom'' session_flushed))"
proof -
  have 1: "map_option content (db (snd (handleError NoFault ''boom'' session_flushed)) ''r1'')
     = Some (Some (''Alice: hello'' @ newline))"
    by (simp add: session_flushed_eval session_started_eval handleError_db closed_session_fields
          updateTranscriptionRequest_def Let_def)
  have 2: "map_option content
        (db (snd (handleError NoFault ''boom''
                    (snd (handleError NoFault ''boom'' session_flushed)))) ''r1'')
     = Some (Some (''Alice: hello'' @ newline @ newline))"
    by (simp add: session_flushed_eval session_started_eval handleError_unfold
          closed_session_def socket_disconnect_def logger_def
          updateTranscriptionRequest_def Let_def newline_def)
  have ne: "Some (Some (''Alice: hello'' @ newline @ newline))
            \<noteq> Some (Some (''Alice: hello'' @ newline))"
    by (simp add: newline_def)
  have "db (snd (handleError NoFault ''boom''
          (snd (handleError NoFault ''boom'' session_flushed))))
      \<noteq> db (snd (handleError NoFault ''boom'' session_flushed))"
  proof
    assume "db (snd (handleError NoFault ''boom''
          (snd (handleError NoFault ''boom'' session_flushed))))
      = db (snd (handleError NoFault ''boom'' session_flushed))"
    then have "map_option content (db (snd (handleError NoFault ''boom''
          (snd (handleError NoFault ''boom'' session_flushed)))) ''r1'')
      = map_option content (db (snd (handleError NoFault ''boom'' session_flushed)) ''r1'')"
      by (rule arg_cong)
    then show False unfolding 1 2 using ne by blast
  qed
  with 1 2 show ?thesis by blast
qed

text \<open>
  Claim C9. On a processing session, a disconnect whose reason is \<open>io server disconnect\<close> or
  \<open>io client disconnect\<close> calls \<^verbatim>\<open>connect()\<close> on the socket the manager holds and changes
  no field of the manager and nothing in the store; a disconnect with any other reason is
  \<^verbatim>\<open>handleError\<close>: the manager is closed and the status \<open>error\<close> is stored.
\<close>

theorem disconnect_recoverable_or_fatal:
  assumes "isProcessingFlag w"
  shows "(reason = ''io server disconnect'' \<or> reason = ''io client disconnect'' \<longrightarrow>
            session_fields (on_disconnect reason flt w) = session_fields w
          \<and> isProcessingFlag (on_disconnect reason flt w)
          \<and> db (on_disconnect reason flt w) = db w
          \<and> (\<forall>s. socket w = Some s \<and> s < length (sockets w) \<longrightarrow>
                sockets (on_disconnect reason flt w)
                  = (sockets w)[s := (sockets w ! s)\<lparr>is_open := True,
                       connect_calls := Suc (connect_calls (sockets w ! s))\<rparr>]))
       \<and> (reason \<noteq> ''io server disconnect'' \<and> reason \<noteq> ''io client disconnect'' \<longrightarrow>
            on_disconnect reason flt w
              = snd (handleError flt ''WebSocket disconnected unexpectedly''
                       (logger LogWarn ''Unexpected WebSocket disconnection'' w))
          \<and> session_fields (on_disconnect reason flt w)
              = (None, requestId w, transcriptionId w, buffer w, lastFlushTime w,
                 None, None, False)
          \<and> (\<forall>rid row. requestId w = Some rid \<and> rid \<noteq> [] \<and> db w rid = Some row \<longrightarrow>
                (\<exists>row'. db (on_disconnect reason NoFault w) rid = Some row'
                   \<and> status row' = Error
                   \<and> error_message row' = Some ''WebSocket disconnected unexpectedly'')))"
proof (intro conjI impI allI)
  assume r: "reason = ''io server disconnect'' \<or> reason = ''io client disconnect''"
  note u = on_disconnect_recoverable [OF assms r, of flt]
  show "session_fields (on_disconnect reason flt w) = session_fields w"
    by (simp add: u split: option.splits)
  show "isProcessingFlag (on_disconnect reason flt w)"
    using assms by (simp add: u socket_connect_def split: option.splits)
  show "db (on_disconnect reason flt w) = db w"
    by (simp add: u split: option.splits)
  fix s assume "socket w = Some s \<and> s < length (sockets w)"
  then show "sockets (on_disconnect reason flt w)
                  = (sockets w)[s := (sockets w ! s)\<lparr>is_open := True,
                       connect_calls := Suc (connect_calls (sockets w ! s))\<rparr>]"
    by (simp add: u socket_connect_def)
next
  assume r: "reason \<noteq> ''io server disconnect'' \<and> reason \<noteq> ''io client disconnect''"
  then have u: "on_disconnect reason flt' w
              = snd (handleError flt' ''WebSocket disconnected unexpectedly''
                       (logger LogWarn ''Unexpected WebSocket disconnection'' w))" for flt'
    using assms by (simp add: on_disconnect_fatal)
  show "on_disconnect reason flt w
              = snd (handleError flt ''WebSocket disconnected unexpectedly''
                       (logger LogWarn ''Unexpected WebSocket disconnection'' w))"
    by (rule u)
  show "session_fields (on_disconnect reason flt w)
              = (None, requestId w, transcriptionId w, buffer w, lastFlushTime w,
                 None, None, False)"
    by (simp add: u handleError_fields)
  fix rid row assume "requestId w = Some rid \<and> rid \<noteq> [] \<and> db w rid = Some row"
  then have "requestId (logger LogWarn ''Unexpected WebSocket disconnection'' w) = Some rid"
    "rid \<noteq> []" "db (logger LogWarn ''Unexpected WebSocket disconnection'' w) rid = Some row"
    by simp_all
  from handleError_persists [OF this, of "''WebSocket disconnected unexpectedly''"]
  show "\<exists>row'. db (on_disconnect reason NoFault w) rid = Some row'
                   \<and> status row' = Error
                   \<and> error_message row' = Some ''WebSocket disconnected unexpectedly''"
    by (auto simp: u)
qed

text \<open>
  The theorem of C9 at the started sample session, for a close by the server and for a
  lost transport.
\<close>

theorem disconnect_recoverable_or_fatal_witness:
  "isProcessingFlag session_started
   \<and> session_fields (on_disconnect ''io server disconnect'' NoFault session_started)
       = session_fields session_started
   \<and> sockets (on_disconnect ''io server disconnect'' NoFault session_started)
       = [\<lparr>is_open = True, connect_calls = 1\<rparr>]
   \<and> db (on_disconnect ''io server disconnect'' NoFault session_started) = db session_started
   \<and> session_fields (on_disconnect ''transport close'' NoFault session_started)
       = (None, Some ''r1'', Some ''t1'', [], 0, None, None, False)
   \<and> (\<exists>row'. db (on_disconnect ''transport close'' NoFault session_started) ''r1'' = Some row'
          \<and> status row' = Error
          \<and> error_message row' = Some ''WebSocket disconnected unexpectedly'')"
proof -
  have p: "isProcessingFlag session_started"
    by (simp add: session_started_eval)
  have s: "socket session_started = Some 0 \<and> 0 < length (sockets session_started)"
    "sockets session_started = [\<lparr>is_open = True, connect_calls = 0\<rparr>]"
    by (simp_all add: session_started_eval)
  have r: "requestId session_started = Some ''r1'' \<and> ''r1'' \<noteq> []
           \<and> db session_started ''r1'' = Some \<lparr>row_id = ''r1'', transcription_id = ''t1'',
                status = Processing, content = None, error_message = None\<rparr>"
    by (simp add: session_started_eval)
  have f: "(None, requestId session_started, transcriptionId session_started,
            buffer session_started, lastFlushTime session_started, None, None, False)
           = (None, Some ''r1'', Some ''t1'', [], 0, None, None, False)"
    by (simp add: session_started_eval)
  note a = disconnect_recoverable_or_fatal [OF p, of "''io server disconnect''" NoFault]
  note b = disconnect_recoverable_or_fatal [OF p, of "''transport close''" NoFault]
  from a have 1: "session_fields (on_disconnect ''io server disconnect'' NoFault session_started)
       = session_fields session_started"
    "db (on_disconnect ''io server disconnect'' NoFault session_started) = db session_started"
    by simp_all
  from a s(1) have "sockets (on_disconnect ''io server disconnect'' NoFault session_started)
       = (sockets session_started)[0 := (sockets session_started ! 0)\<lparr>is_open := True,
            connect_calls := Suc (connect_calls (sockets session_started ! 0))\<rparr>]"
    by simp
  then have 2: "sockets (on_disconnect ''io server disconnect'' NoFault session_started)
       = [\<lparr>is_open = True, connect_calls = 1\<rparr>]"
    by (simp add: s(2))
  from b have "session_fields (on_disconnect ''transport close'' NoFault session_started)
       = (None, requestId session_started, transcriptionId session_started,
            buffer session_started, lastFlushTime session_started, None, None, False)"
    by blast
  also note f
  finally have 3: "session_fields (on_disconnect ''transport close'' NoFault session_started)
       = (None, Some ''r1'', Some ''t1'', [], 0, None, None, False)" .
  from b r have 4: "\<exists>row'. db (on_disconnect ''transport close'' NoFault session_started) ''r1''
          = Some row' \<and> status row' = Error
          \<and> error_message row' = Some ''WebSocket disconnected unexpectedly''"
    by blast
  from p 1 2 3 4 show ?thesis by blast
qed

text \<open>
  Claim C2, as amended. On a manager with a request id whose record exists, a fragment that
  arrives less than \<open>FLUSH_INTERVAL\<close> (15000 ms) after \<open>lastFlushTime\<close> is only added
  to the buffer: nothing is written. A fragment that arrives \<open>FLUSH_INTERVAL\<close> or more
  after \<open>lastFlushTime\<close> is flushed with the buffer at once, in its own handler, and
  \<open>lastFlushTime\<close> becomes the time of its arrival. A tick of the flush timer writes
  when the buffer holds fragments and writes nothing when it is empty, and sets
  \<open>lastFlushTime\<close>. A stop and an inactivity timeout on a buffer that holds fragments
  write the transcript of the buffer, empty the buffer, and then write the status
  \<open>completed\<close> with an empty block. \<^verbatim>\<open>handleError\<close> does not flush: it leaves the
  buffer as it is and writes an empty block only. (Writes are shown with a store that does
  not fail.)
\<close>

theorem fragment_flushes_only_after_interval:
  assumes "requestId w = Some rid" and "rid \<noteq> []" and "db w rid = Some row"
  shows "(now - lastFlushTime w < FLUSH_INTERVAL \<longrightarrow>
            db (on_transcription_broadcast (Some p) now flt flt_err w) = db w
          \<and> buffer (on_transcription_broadcast (Some p) now flt flt_err w) = buffer w @ [p]
          \<and> lastFlushTime (on_transcription_broadcast (Some p) now flt flt_err w)
              = lastFlushTime w)
       \<and> (now - lastFlushTime w \<ge> FLUSH_INTERVAL \<longrightarrow>
            buffer (on_transcription_broadcast (Some p) now NoFault flt_err w) = []
          \<and> lastFlushTime (on_transcription_broadcast (Some p) now NoFault flt_err w) = now
          \<and> (\<exists>row'. db (on_transcription_broadcast (Some p) now NoFault flt_err w) rid
                      = Some row'
                \<and> content row' = Some (appended (content row)
                     (fst (processBufferToTranscript (w\<lparr>buffer := buffer w @ [p]\<rparr>))))))
       \<and> (flushTimer w \<noteq> None \<and> buffer w = [] \<longrightarrow>
            db (flush_timer_fires flt now w) = db w
          \<and> lastFlushTime (flush_timer_fires flt now w) = now)
       \<and> (flushTimer w \<noteq> None \<and> buffer w \<noteq> [] \<longrightarrow>
            buffer (flush_timer_fires NoFault now w) = []
          \<and> lastFlushTime (flush_timer_fires NoFault now w) = now
          \<and> (\<exists>row'. db (flush_timer_fires NoFault now w) rid = Some row'
                \<and> content row'
                    = Some (appended (content row) (fst (processBufferToTranscript w)))))
       \<and> (buffer w \<noteq> [] \<longrightarrow>
            (\<exists>row'. fst (stopTranscription NoFault NoFault w) = Inr ()
                \<and> buffer (snd (stopTranscription NoFault NoFault w)) = []
                \<and> db (snd (stopTranscription NoFault NoFault w)) rid = Some row'
                \<and> content row' = Some (appended
                      (Some (appended (content row) (fst (processBufferToTranscript w)))) [])
                \<and> status row' = Completed))
       \<and> (inactivityTimer w \<noteq> None \<and> buffer w \<noteq> [] \<longrightarrow>
            (\<exists>row'. buffer (inactivity_timer_fires NoFault NoFault NoFault w) = []
                \<and> db (inactivity_timer_fires NoFault NoFault NoFault w) rid = Some row'
                \<and> content row' = Some (appended
                      (Some (appended (content row) (fst (processBufferToTranscript w)))) [])
                \<and> status row' = Completed))
       \<and> buffer (snd (handleError NoFault message w)) = buffer w
       \<and> (\<exists>row'. db (snd (handleError NoFault message w)) rid = Some row'
              \<and> content row' = Some (appended (content row) []))"
proof (intro conjI impI)
  assume e: "now - lastFlushTime w < FLUSH_INTERVAL"
  note u = broadcast_early [OF e, of p flt flt_err]
  show "db (on_transcription_broadcast (Some p) now flt flt_err w) = db w"
    "buffer (on_transcription_broadcast (Some p) now flt flt_err w) = buffer w @ [p]"
    "lastFlushTime (on_transcription_broadcast (Some p) now flt flt_err w) = lastFlushTime w"
    by (simp_all add: u resetInactivityTimer_def)
next
  assume l: "now - lastFlushTime w \<ge> FLUSH_INTERVAL"
  from broadcast_late [OF l assms, of p flt_err] obtain row' where
    r: "on_transcription_broadcast (Some p) now NoFault flt_err w
            = (resetInactivityTimer w)\<lparr>buffer := buffer w @ [p], db := (db w)(rid \<mapsto> row'),
                 buffer := [], lastFlushTime := now\<rparr>"
       "content row' = Some (appended (content row)
               (fst (processBufferToTranscript (w\<lparr>buffer := buffer w @ [p]\<rparr>))))"
    by blast
  show "buffer (on_transcription_broadcast (Some p) now NoFault flt_err w) = []"
    "lastFlushTime (on_transcription_broadcast (Some p) now NoFault flt_err w) = now"
    by (simp_all add: r(1))
  show "\<exists>row'. db (on_transcription_broadcast (Some p) now NoFault flt_err w) rid = Some row'
                \<and> content row' = Some (appended (content row)
                     (fst (processBufferToTranscript (w\<lparr>buffer := buffer w @ [p]\<rparr>))))"
    using r by simp
next
  assume a: "flushTimer w \<noteq> None \<and> buffer w = []"
  then have u: "flush_timer_fires flt now w = w\<lparr>lastFlushTime := now\<rparr>"
    by (intro tick_empty) simp_all
  show "db (flush_timer_fires flt now w) = db w"
    "lastFlushTime (flush_timer_fires flt now w) = now"
    by (simp_all add: u)
next
  assume a: "flushTimer w \<noteq> None \<and> buffer w \<noteq> []"
  then have a1: "flushTimer w \<noteq> None" and a2: "buffer w \<noteq> []" by simp_all
  from tick_NoFault [OF a1 a2 assms, of now] obtain row' where
    r: "flush_timer_fires NoFault now w
            = w\<lparr>db := (db w)(rid \<mapsto> row'), buffer := [], lastFlushTime := now\<rparr>"
       "content row' = Some (appended (content row) (fst (processBufferToTranscript w)))"
    by blast
  show "buffer (flush_timer_fires NoFault now w) = []"
    "lastFlushTime (flush_timer_fires NoFault now w) = now"
    by (simp_all add: r(1))
  show "\<exists>row'. db (flush_timer_fires NoFault now w) rid = Some row'
                \<and> content row'
                    = Some (appended (content row) (fst (processBufferToTranscript w)))"
    using r by simp
next
  assume "buffer w \<noteq> []"
  then show "\<exists>row'. fst (stopTranscription NoFault NoFault w) = Inr ()
                \<and> buffer (snd (stopTranscription NoFault NoFault w)) = []
                \<and> db (snd (stopTranscription NoFault NoFault w)) rid = Some row'
                \<and> content row' = Some (appended
                      (Some (appended (content row) (fst (processBufferToTranscript w)))) [])
                \<and> status row' = Completed"
    using assms by (rule stop_NoFault)
next
  assume a: "inactivityTimer w \<noteq> None \<and> buffer w \<noteq> []"
  then have a1: "inactivityTimer w \<noteq> None" and a2: "buffer w \<noteq> []" by simp_all
  from a1 a2 assms
  show "\<exists>row'. buffer (inactivity_timer_fires NoFault NoFault NoFault w) = []
                \<and> db (inactivity_timer_fires NoFault NoFault NoFault w) rid = Some row'
                \<and> content row' = Some (appended
                      (Some (appended (content row) (fst (processBufferToTranscript w)))) [])
                \<and> status row' = Completed"
    by (rule inactivity_NoFault)
next
  show "buffer (snd (handleError NoFault message w)) = buffer w"
    by (rule handleError_buffer)
  from handleError_persists [OF assms, of message]
  show "\<exists>row'. db (snd (handleError NoFault message w)) rid = Some row'
              \<and> content row' = Some (appended (content row) [])"
    by blast
qed

text \<open>
  The theorem of C2 at the sample session: a fragment at 100 is buffered, the same fragment
  at 15000 is written at once; a tick on the empty buffer writes nothing, a tick on the
  buffered fragment writes it; a stop and an inactivity timeout on the buffered fragment
  write it and then the status; an error leaves it in the buffer.
\<close>

theorem fragment_flushes_only_after_interval_witness:
  "requestId session_started = Some ''r1'' \<and> lastFlushTime session_started = 0
   \<and> flushTimer session_started \<noteq> None \<and> buffer session_started = []
   \<and> inactivityTimer session_buffering \<noteq> None \<and> buffer session_buffering = [alice_hello]
   \<and> db (on_transcription_broadcast (Some alice_hello) 100 NoFault NoFault session_started)
       = db session_started
   \<and> buffer (on_transcription_broadcast (Some alice_hello) 100 NoFault NoFault session_started)
       = [alice_hello]
   \<and> buffer (on_transcription_broadcast (Some alice_hello) 15000 NoFault NoFault
               session_started) = []
   \<and> db (flush_timer_fires NoFault 15000 session_started) = db session_started
   \<and> buffer (flush_timer_fires NoFault 15000 session_buffering) = []
   \<and> (\<exists>row'. buffer (snd (stopTranscription NoFault NoFault session_buffering)) = []
          \<and> db (snd (stopTranscription NoFault NoFault session_buffering)) ''r1'' = Some row'
          \<and> content row' = Some (''Alice: hello'' @ newline)
          \<and> status row' = Completed)
   \<and> (\<exists>row'. buffer (inactivity_timer_fires NoFault NoFault NoFault session_buffering) = []
          \<and> db (inactivity_timer_fires NoFault NoFault NoFault session_buffering) ''r1''
              = Some row'
          \<and> content row' = Some (''Alice: hello'' @ newline)
          \<and> status row' = Completed)
   \<and> buffer (snd (handleError NoFault ''boom'' session_buffering)) = [alice_hello]
   \<and> (\<exists>row'. db (snd (handleError NoFault ''boom'' session_buffering)) ''r1'' = Some row'
          \<and> content row' = Some [])"
proof -
  have h: "requestId session_started = Some ''r1''" "''r1'' \<noteq> []"
    "db session_started ''r1'' = Some \<lparr>row_id = ''r1'', transcription_id = ''t1'',
       status = Processing, content = None, error_message = None\<rparr>"
    by (simp_all add: session_started_eval)
  have h': "requestId session_buffering = Some ''r1''"
    "db session_buffering ''r1'' = Some \<lparr>row_id = ''r1'', transcription_id = ''t1'',
       status = Processing, content = None, error_message = None\<rparr>"
    by (simp_all add: session_buffering_eval session_started_eval)
  have early: "100 - lastFlushTime session_started < FLUSH_INTERVAL"
    and late: "15000 - lastFlushTime session_started \<ge> FLUSH_INTERVAL"
    and idle: "flushTimer session_started \<noteq> None \<and> buffer session_started = []"
    and busy: "flushTimer session_buffering \<noteq> None \<and> buffer session_buffering \<noteq> []"
    and full: "buffer session_buffering \<noteq> []"
    and armed: "inactivityTimer session_buffering \<noteq> None \<and> buffer session_buffering \<noteq> []"
    and l: "lastFlushTime session_started = 0"
    and b: "buffer session_buffering = [alice_hello]"
    by (simp_all add: session_started_eval session_buffering_eval FLUSH_INTERVAL_def)
  have t: "fst (processBufferToTranscript session_buffering) = ''Alice: hello''"
    by (simp add: session_buffering_eval processBufferToTranscript_def transcript_alice_hello)
  note k = fragment_flushes_only_after_interval [OF h, of 100 alice_hello NoFault NoFault]
  note k' = fragment_flushes_only_after_interval [OF h, of 15000 alice_hello NoFault NoFault]
  note n = fragment_flushes_only_after_interval [OF h'(1) h(2) h'(2),
             of 15000 alice_hello NoFault NoFault "''boom''"]
  note a = k [THEN conjunct1, rule_format, OF early]
  note b' = k' [THEN conjunct2, THEN conjunct1, rule_format, OF late]
  note c = k' [THEN conjunct2, THEN conjunct2, THEN conjunct1, rule_format, OF idle]
  note d = n [THEN conjunct2, THEN conjunct2, THEN conjunct2, THEN conjunct1, rule_format,
             OF busy]
  note e = n [THEN conjunct2, THEN conjunct2, THEN conjunct2, THEN conjunct2, THEN conjunct1,
             rule_format, OF full]
  note f = n [THEN conjunct2, THEN conjunct2, THEN conjunct2, THEN conjunct2, THEN conjunct2,
             THEN conjunct1, rule_format, OF armed]
  note g = n [THEN conjunct2, THEN conjunct2, THEN conjunct2, THEN conjunct2, THEN conjunct2,
             THEN conjunct2]
  from a have 1: "db (on_transcription_broadcast (Some alice_hello) 100 NoFault NoFault
                        session_started) = db session_started"
    "buffer (on_transcription_broadcast (Some alice_hello) 100 NoFault NoFault session_started)
       = buffer session_started @ [alice_hello]"
    by simp_all
  from b' have 2: "buffer (on_transcription_broadcast (Some alice_hello) 15000 NoFault NoFault
               session_started) = []"
    by (rule conjunct1)
  from c have 3: "db (flush_timer_fires NoFault 15000 session_started) = db session_started"
    by (rule conjunct1)
  from d have 4: "buffer (flush_timer_fires NoFault 15000 session_buffering) = []"
    by (rule conjunct1)
  from e have 5: "\<exists>row'. buffer (snd (stopTranscription NoFault NoFault session_buffering)) = []
          \<and> db (snd (stopTranscription NoFault NoFault session_buffering)) ''r1'' = Some row'
          \<and> content row' = Some (''Alice: hello'' @ newline)
          \<and> status row' = Completed"
    by (simp add: t appended_def)
  from f have 6: "\<exists>row'.
          buffer (inactivity_timer_fires NoFault NoFault NoFault session_buffering) = []
          \<and> db (inactivity_timer_fires NoFault NoFault NoFault session_buffering) ''r1''
              = Some row'
          \<and> content row' = Some (''Alice: hello'' @ newline)
          \<and> status row' = Completed"
    by (simp add: t appended_def)
  from g [THEN conjunct1] b
  have 7: "buffer (snd (handleError NoFault ''boom'' session_buffering)) = [alice_hello]"
    by (rule trans)
  from g [THEN conjunct2]
  have 8: "\<exists>row'. db (snd (handleError NoFault ''boom'' session_buffering)) ''r1'' = Some row'
          \<and> content row' = Some []"
    by (simp add: appended_def)
  from h(1) l idle armed b 1 2 3 4 5 6 7 8 show ?thesis by simp
qed

text \<open>
  Claim C2 as it is written fails: after a start at time 0, before any tick of the flush
  timer and with no terminal transition, the handler of a fragment that arrives at 15000
  writes the buffer to the record; the session is still processing and its flush timer is
  still armed.
\<close>

theorem fragment_triggers_flush_counterexample:
  "lastFlushTime session_started = 0 \<and> isProcessingFlag session_started
   \<and> map_option content (db session_started ''r1'') = Some None
   \<and> map_option content
        (db (on_transcription_broadcast (Some alice_hello) 15000 NoFault NoFault
               session_started) ''r1'')
       = Some (Some ''Alice: hello'')
   \<and> buffer (on_transcription_broadcast (Some alice_hello) 15000 NoFault NoFault
               session_started) = []
   \<and> isProcessingFlag
        (on_transcription_broadcast (Some alice_hello) 15000 NoFault NoFault session_started)
   \<and> flushTimer
        (on_transcription_broadcast (Some alice_hello) 15000 NoFault NoFault session_started)
       = Some (Interval 15000)"
proof -
  have 1: "on_transcription_broadcast (Some alice_hello) 15000 NoFault NoFault session_started
      = session_started\<lparr>lastFlushTime := 15000,
          db := [''r1'' \<mapsto> \<lparr>row_id = ''r1'', transcription_id = ''t1'', status = Processing,
                 content = Some ''Alice: hello'', error_message = None\<rparr>]\<rparr>"
    by (simp add: session_started_eval on_transcription_broadcast_def resetInactivityTimer_def
          flushBuffer_def updateTranscriptionRequest_def processBufferToTranscript_def
          truthy_def constant_defs transcript_alice_hello Let_def)
  show ?thesis
    unfolding 1 by (simp add: session_started_eval)
qed

text \<open>
  Claim C1: the code at a processing session that buffers one fragment, stopped by
  \<^verbatim>\<open>POST /stop\<close>. The flush timer is cleared, the buffer is flushed, the socket is
  disconnected and the status \<open>completed\<close> is written, but the inactivity watchdog is still
  pending; when it fires, \<^verbatim>\<open>stopTranscription\<close> runs a second time and writes to the
  record again.
\<close>

theorem stop_leaves_watchdog_armed:
  "isProcessingFlag session_buffering
   \<and> flushTimer session_buffering = Some (Interval 15000)
   \<and> inactivityTimer session_buffering = Some (Timeout 600000)
   \<and> fst (post_stop (Some ''r1'') NoFault NoFault session_buffering) = 200
   \<and> session_fields (snd (post_stop (Some ''r1'') NoFault NoFault session_buffering))
       = (None, Some ''r1'', Some ''t1'', [], 0, Some (Timeout 600000), None, False)
   \<and> sockets (snd (post_stop (Some ''r1'') NoFault NoFault session_buffering))
       = [\<lparr>is_open = False, connect_calls = 0\<rparr>]
   \<and> db (snd (post_stop (Some ''r1'') NoFault NoFault session_buffering)) ''r1''
       = Some \<lparr>row_id = ''r1'', transcription_id = ''t1'', status = Completed,
               content = Some (''Alice: hello'' @ newline), error_message = None\<rparr>
   \<and> db (inactivity_timer_fires NoFault NoFault NoFault
           (snd (post_stop (Some ''r1'') NoFault NoFault session_buffering))) ''r1''
       = Some \<lparr>row_id = ''r1'', transcription_id = ''t1'', status = Completed,
               content = Some (''Alice: hello'' @ newline @ newline), error_message = None\<rparr>"
proof -
  have s: "post_stop (Some ''r1'') NoFault NoFault session_buffering
      = (200, session_started\<lparr>socket := None, flushTimer := None, isProcessingFlag := False,
           sockets := [\<lparr>is_open = False, connect_calls = 0\<rparr>],
           db := [''r1'' \<mapsto> \<lparr>row_id = ''r1'', transcription_id = ''t1'', status = Completed,
                  content = Some (''Alice: hello'' @ newline), error_message = None\<rparr>]\<rparr>)"
    by (simp add: session_buffering_eval session_started_eval post_stop_def stopTranscription_def
          flushBuffer_def updateTranscriptionRequest_def processBufferToTranscript_def
          socket_disconnect_def truthy_def transcript_alice_hello Let_def)
  have w: "db (inactivity_timer_fires NoFault NoFault NoFault
           (snd (post_stop (Some ''r1'') NoFault NoFault session_buffering))) ''r1''
       = Some \<lparr>row_id = ''r1'', transcription_id = ''t1'', status = Completed,
               content = Some (''Alice: hello'' @ newline @ newline), error_message = None\<rparr>"
    unfolding s
    by (simp add: session_started_eval inactivity_timer_fires_def handleInactivityTimeout_def
          stopTranscription_def unhandledRejection_def updateTranscriptionRequest_def logger_def
          newline_def Let_def)
  show ?thesis
    unfolding s using w [unfolded s]
    by (simp add: session_buffering_eval session_started_eval session_fields_def)
qed

text \<open>
  Claim C3: the code at two requests \<^verbatim>\<open>POST /start\<close> in a row. The second request
  arrives while the first session is processing; the route answers 202 and calls
  \<^verbatim>\<open>startTranscription\<close> again: the manager now belongs to the request \<open>r2\<close>, a second
  socket is open beside the first one, which nobody closes, and the record of \<open>r1\<close> stays
  \<open>processing\<close>.
\<close>

theorem second_start_reaches_core:
  "isProcessingFlag session_started \<and> requestId session_started = Some ''r1''
   \<and> fst (post_start (Some ''t2'') (Some ''r2'') ''g2'' None None NoFault 50 session_started)
       = 202
   \<and> session_fields
        (snd (post_start (Some ''t2'') (Some ''r2'') ''g2'' None None NoFault 50 session_started))
       = (Some 1, Some ''r2'', Some ''t2'', [], 50, Some (Timeout 600000),
          Some (Interval 15000), True)
   \<and> sockets
        (snd (post_start (Some ''t2'') (Some ''r2'') ''g2'' None None NoFault 50 session_started))
       = [\<lparr>is_open = True, connect_calls = 0\<rparr>, \<lparr>is_open = True, connect_calls = 0\<rparr>]
   \<and> map_option status
        (db (snd (post_start (Some ''t2'') (Some ''r2'') ''g2'' None None NoFault 50
                    session_started)) ''r1'')
       = Some Processing"
  by (simp add: session_started_eval post_start_def createTranscriptionRequest_def
        startTranscription_def io_def startFlushTimer_def resetInactivityTimer_def
        unhandledRejection_def session_fields_def constant_defs Let_def)

end
